theory Spec2Isabelle
  imports Main
begin

section \<open>Text primitives of the Python runtime\<close>

text \<open>
  Text and byte strings are lists of 8-bit characters; a character of a decoded text
  stands for the code point of the same number (U+0000 to U+00FF). The markers, digits,
  separators and white space the program looks for are all in that range.
\<close>

type_synonym path = string
type_synonym bytes = string

text \<open>\<^verbatim>\<open>str.isspace\<close> on one character of that range.\<close>

definition py_isspace :: "char \<Rightarrow> bool" where
  "py_isspace c = (let n = (of_char c :: nat) in
     (9 \<le> n \<and> n \<le> 13) \<or> (28 \<le> n \<and> n \<le> 32) \<or> n = 133 \<or> n = 160)"

definition py_isdigit :: "char \<Rightarrow> bool" where
  "py_isdigit c = (let n = (of_char c :: nat) in 48 \<le> n \<and> n \<le> 57)"

definition digit_val :: "char \<Rightarrow> nat" where
  "digit_val c = (of_char c :: nat) - 48"

definition is_ascii :: "char \<Rightarrow> bool" where
  "is_ascii c = ((of_char c :: nat) < 128)"

text \<open>\<^verbatim>\<open>s.strip()\<close>\<close>

definition strip :: "string \<Rightarrow> string" where
  "strip s = rev (dropWhile py_isspace (rev (dropWhile py_isspace s)))"

text \<open>\<^verbatim>\<open>s.startswith(p)\<close> and \<^verbatim>\<open>sub in s\<close>\<close>

fun startswith :: "string \<Rightarrow> string \<Rightarrow> bool" where
  "startswith s [] = True"
| "startswith [] (p # ps) = False"
| "startswith (c # cs) (p # ps) = (c = p \<and> startswith cs ps)"

fun contains :: "string \<Rightarrow> string \<Rightarrow> bool" where
  "contains sub [] = (sub = [])"
| "contains sub (c # cs) = (startswith (c # cs) sub \<or> contains sub cs)"

text \<open>\<^verbatim>\<open>s.split(sep)\<close> for a separator of one character: never an empty list.\<close>

fun split_char :: "char \<Rightarrow> string \<Rightarrow> string list" where
  "split_char sep [] = [[]]"
| "split_char sep (c # cs) =
     (if c = sep then [] # split_char sep cs
      else (case split_char sep cs of p # ps \<Rightarrow> (c # p) # ps | [] \<Rightarrow> [[c]]))"

text \<open>
  \<^verbatim>\<open>s.split(sep)[-1]\<close> for a separator of several characters: the text after the last
  match of a left-to-right scan without overlaps, the whole of \<open>s\<close> when there is none.
  \<open>cur\<close> is the piece being read. The source only passes constant, non-empty separators.
\<close>

function split_last :: "string \<Rightarrow> string \<Rightarrow> string \<Rightarrow> string" where
  "split_last sep cur [] = cur"
| "split_last sep cur (c # cs) =
     (if startswith (c # cs) sep then split_last sep [] (drop (length sep - 1) cs)
      else split_last sep (cur @ [c]) cs)"
  by pat_completeness auto
termination
  by (relation "measure (\<lambda>(sep, cur, s). length s)") auto

text \<open>\<^verbatim>\<open>s.split(":", 1)[-1]\<close>: the text after the first colon, all of \<open>s\<close> without one.\<close>

definition split1_last :: "char \<Rightarrow> string \<Rightarrow> string" where
  "split1_last sep s =
     (case dropWhile (\<lambda>c. c \<noteq> sep) s of [] \<Rightarrow> s | _ # rest \<Rightarrow> rest)"

text \<open>
  \<^verbatim>\<open>s.splitlines()\<close>: a line ends at LF, CR, CR LF, VT, FF, FS, GS, RS or NEL; no empty
  last line after a final line end. \<open>cur\<close> is the line being read, reversed.
\<close>

definition is_linebreak :: "char \<Rightarrow> bool" where
  "is_linebreak c = (c = CHR 0x0A \<or> c = CHR 0x0D \<or> c = CHR 0x0B \<or> c = CHR 0x0C \<or>
     c = CHR 0x1C \<or> c = CHR 0x1D \<or> c = CHR 0x1E \<or> c = CHR 0x85)"

fun splitlines_from :: "string \<Rightarrow> string \<Rightarrow> string list" where
  "splitlines_from cur [] = (if cur = [] then [] else [rev cur])"
| "splitlines_from cur (c # cs) =
     (if c = CHR 0x0D \<and> cs \<noteq> [] \<and> hd cs = CHR 0x0A then rev cur # splitlines_from [] (tl cs)
      else if is_linebreak c then rev cur # splitlines_from [] cs
      else splitlines_from (c # cur) cs)"

definition splitlines :: "string \<Rightarrow> string list" where
  "splitlines s = splitlines_from [] s"

text \<open>
  \<^verbatim>\<open>int(s)\<close> in base 10: white space around, one optional sign, then digits with single
  underscores between them. \<open>None\<close> is the \<^verbatim>\<open>ValueError\<close>. The white space that
  \<^verbatim>\<open>int\<close> skips is narrower than that of \<^verbatim>\<open>strip\<close>: it leaves the separators
  U+001C to U+001F in place and then fails on them. A text with more than 4300 digits
  is refused (the interpreter's default limit for one conversion).
\<close>

definition int_isspace :: "char \<Rightarrow> bool" where
  "int_isspace c = (let n = (of_char c :: nat) in
     (9 \<le> n \<and> n \<le> 13) \<or> n = 32 \<or> n = 133 \<or> n = 160)"

definition int_strip :: "string \<Rightarrow> string" where
  "int_strip s = rev (dropWhile int_isspace (rev (dropWhile int_isspace s)))"

definition INT_MAX_STR_DIGITS :: nat where
  "INT_MAX_STR_DIGITS = 4300"

fun parse_digits :: "nat \<Rightarrow> string \<Rightarrow> nat option" where
  "parse_digits acc [] = Some acc"
| "parse_digits acc [c] = (if py_isdigit c then Some (acc * 10 + digit_val c) else None)"
| "parse_digits acc (c # d # ds) =
     (if py_isdigit c then parse_digits (acc * 10 + digit_val c) (d # ds)
      else if c = CHR ''_'' \<and> py_isdigit d then parse_digits (acc * 10 + digit_val d) ds
      else None)"

definition parse_nat :: "string \<Rightarrow> nat option" where
  "parse_nat s = (case s of [] \<Rightarrow> None
     | c # cs \<Rightarrow> if py_isdigit c then parse_digits (digit_val c) cs else None)"

definition py_int :: "string \<Rightarrow> int option" where
  "py_int s =
     (if INT_MAX_STR_DIGITS < length (filter py_isdigit s) then None
      else (case int_strip s of
              [] \<Rightarrow> None
            | c # cs \<Rightarrow>
                if c = CHR ''-'' then map_option (\<lambda>n. - int n) (parse_nat cs)
                else if c = CHR ''+'' then map_option int (parse_nat cs)
                else map_option int (parse_nat (c # cs))))"

text \<open>\<^verbatim>\<open>str(n)\<close> for an integer.\<close>

definition digit_char :: "nat \<Rightarrow> char" where
  "digit_char d = ''0123456789'' ! d"

fun str_nat :: "nat \<Rightarrow> string" where
  "str_nat n = (if n < 10 then [digit_char n]
                else str_nat (n div 10) @ [digit_char (n mod 10)])"

declare str_nat.simps [simp del]

definition str_int :: "int \<Rightarrow> string" where
  "str_int i = (if i < 0 then CHR ''-'' # str_nat (nat (- i)) else str_nat (nat i))"

text \<open>
  \<^verbatim>\<open>hmac.compare_digest(a, b)\<close> on two texts: a \<^verbatim>\<open>TypeError\<close> (\<open>None\<close>) when one of
  them has a character outside ASCII, their equality otherwise. That it takes the same
  time whatever the texts is not a property of the value it returns.
\<close>

definition compare_digest :: "string \<Rightarrow> string \<Rightarrow> bool option" where
  "compare_digest a b =
     (if list_all is_ascii a \<and> list_all is_ascii b then Some (a = b) else None)"


section \<open>bn.py: versions\<close>

text \<open>\<^verbatim>\<open>parse_version\<close>: the first of the first 30 lines that holds the marker.\<close>

fun first_line_with :: "string \<Rightarrow> string list \<Rightarrow> string option" where
  "first_line_with marker [] = None"
| "first_line_with marker (l # ls) =
     (if contains marker l then Some l else first_line_with marker ls)"

definition parse_version :: "string \<Rightarrow> string" where
  "parse_version text =
     (case first_line_with ''BN version:'' (take 30 (splitlines text)) of
        Some line \<Rightarrow> strip (split_last ''BN version:'' [] line)
      | None \<Rightarrow> [])"

text \<open>
  \<^verbatim>\<open>version_tuple\<close>: the components between the dots as integers; \<open>(0,)\<close> when one of
  them is not an integer.
\<close>

fun all_ints :: "string list \<Rightarrow> int list option" where
  "all_ints [] = Some []"
| "all_ints (x # xs) =
     (case py_int x of None \<Rightarrow> None
      | Some i \<Rightarrow> (case all_ints xs of None \<Rightarrow> None | Some is \<Rightarrow> Some (i # is)))"

definition version_tuple :: "string \<Rightarrow> int list" where
  "version_tuple v = (case all_ints (split_char CHR ''.'' v) of Some t \<Rightarrow> t | None \<Rightarrow> [0])"

text \<open>
  \<open>>\<close> on two tuples of integers: the first position where they differ decides; when
  one is the start of the other, the longer one is the greater.
\<close>

fun tuple_gt :: "int list \<Rightarrow> int list \<Rightarrow> bool" where
  "tuple_gt [] ys = False"
| "tuple_gt (x # xs) [] = True"
| "tuple_gt (x # xs) (y # ys) = (if x = y then tuple_gt xs ys else x > y)"

definition version_gt :: "string \<Rightarrow> string \<Rightarrow> bool" where
  "version_gt a b = tuple_gt (version_tuple a) (version_tuple b)"


section \<open>Files\<close>

text \<open>
  The file system is a map from paths to contents. An operation that writes a file can
  fail before it has touched the file, or after it has written part of the content; the
  environment decides which (\<open>io_fault\<close>), and the result says whether the call returned
  (\<open>True\<close>) or raised.
\<close>

type_synonym fs = "path \<rightharpoonup> bytes"

datatype io_fault = IoOk | IoFailsBefore | IoFailsAfter nat

text \<open>Open \<open>p\<close> for writing, which empties it, and write \<open>content\<close>.\<close>

definition write_new :: "io_fault \<Rightarrow> fs \<Rightarrow> path \<Rightarrow> bytes \<Rightarrow> bool \<times> fs" where
  "write_new f fs p content =
     (case f of
        IoOk \<Rightarrow> (True, fs(p \<mapsto> content))
      | IoFailsBefore \<Rightarrow> (False, fs)
      | IoFailsAfter k \<Rightarrow> (False, fs(p \<mapsto> take k content)))"

text \<open>
  \<^verbatim>\<open>shutil.copy2(src, dst)\<close>: raises when \<open>src\<close> is missing or is \<open>dst\<close> itself; otherwise
  opens \<open>dst\<close> for writing and copies the content of \<open>src\<close> into it.
\<close>

definition copy2 :: "io_fault \<Rightarrow> fs \<Rightarrow> path \<Rightarrow> path \<Rightarrow> bool \<times> fs" where
  "copy2 f fs src dst =
     (case fs src of
        None \<Rightarrow> (False, fs)
      | Some content \<Rightarrow> if src = dst then (False, fs) else write_new f fs dst content)"

text \<open>
  \<^verbatim>\<open>shutil.move(src, dst)\<close> for a regular file \<open>src\<close> and a \<open>dst\<close> that is no directory:
  \<^verbatim>\<open>os.rename\<close> first; when the rename raises an \<^verbatim>\<open>OSError\<close> (the two paths are on
  different file systems, or the platform does not rename over an existing file), the
  library copies \<open>src\<close> over \<open>dst\<close> with \<^verbatim>\<open>copy2\<close> and then unlinks \<open>src\<close>.
\<close>

record move_env =
  rename_ok :: bool
  move_copy :: io_fault
  unlink_ok :: bool

definition shutil_move :: "move_env \<Rightarrow> fs \<Rightarrow> path \<Rightarrow> path \<Rightarrow> bool \<times> fs" where
  "shutil_move e fs src dst =
     (case fs src of
        None \<Rightarrow> (False, fs)
      | Some content \<Rightarrow>
          if rename_ok e then (True, (fs(dst \<mapsto> content))(src := None))
          else (case copy2 (move_copy e) fs src dst of
                  (False, fs1) \<Rightarrow> (False, fs1)
                | (True, fs1) \<Rightarrow>
                    if unlink_ok e then (True, fs1(src := None)) else (False, fs1)))"

text \<open>\<^verbatim>\<open>os.replace(src, dst)\<close>: one atomic rename, or no change at all.\<close>

definition os_replace :: "bool \<Rightarrow> fs \<Rightarrow> path \<Rightarrow> path \<Rightarrow> bool \<times> fs" where
  "os_replace ok fs src dst =
     (case fs src of
        None \<Rightarrow> (False, fs)
      | Some content \<Rightarrow> if ok then (True, (fs(src := None))(dst \<mapsto> content)) else (False, fs))"

definition append_file :: "fs \<Rightarrow> path \<Rightarrow> string \<Rightarrow> fs" where
  "append_file fs p s = fs(p \<mapsto> (case fs p of None \<Rightarrow> s | Some old \<Rightarrow> old @ s))"


section \<open>bn.py: the update\<close>

text \<open>
  What one call of \<^verbatim>\<open>safe_update\<close> meets outside the program: the result of the fetch
  (\<open>None\<close> when \<^verbatim>\<open>fetch_raw\<close> raises), the decoding of the bytes, the configuration
  constant \<^verbatim>\<open>SIGNATURE_REQUIRED\<close> (\<^verbatim>\<open>False\<close> as shipped), the stored \<^verbatim>\<open>nova_key\<close>
  (\<open>None\<close> also when there is no memory), HMAC-SHA-256 as hex digits (\<^verbatim>\<open>hmac_hex\<close>,
  a library call), the name \<^verbatim>\<open>NamedTemporaryFile\<close> picks in the system's temporary
  directory, and how each file operation of the swap goes.
\<close>

record update_env =
  fetch_raw :: "bytes option"
  decode :: "bytes \<Rightarrow> string"
  SIGNATURE_REQUIRED :: bool
  nova_key :: "string option"
  hmac_hex :: "bytes \<Rightarrow> string \<Rightarrow> string"
  tmp_name :: path
  tmp_write :: io_fault
  backup_copy :: io_fault
  move :: move_env

text \<open>One constructor for each \<^verbatim>\<open>return\<close> of \<^verbatim>\<open>safe_update\<close>, and one for the
  \<^verbatim>\<open>TypeError\<close> that \<^verbatim>\<open>compare_digest\<close> raises out of it.\<close>

datatype outcome =
    FetchError
  | RejectNotBN
  | RejectMissingVersion
  | UpToDate string string
  | RejectMissingSignature
  | RejectKeyNotSet
  | RejectSignatureMismatch
  | RaisedTypeError
  | SwapError
  | Updated string

text \<open>\<^verbatim>\<open>extract_signature_line\<close>: of the first of the first 60 lines that holds the
  header, the text after its first colon.\<close>

definition extract_signature_line :: "string \<Rightarrow> string option" where
  "extract_signature_line text =
     (case first_line_with ''Nova-Signature'' (take 60 (splitlines text)) of
        Some line \<Rightarrow> Some (strip (split1_last CHR '':'' line))
      | None \<Rightarrow> None)"

text \<open>The signature gate of \<^verbatim>\<open>safe_update\<close>: go on to the swap, or stop with a result.\<close>

datatype gate = Pass | Stop outcome

definition signature_gate :: "update_env \<Rightarrow> bytes \<Rightarrow> string \<Rightarrow> gate" where
  "signature_gate e data text =
     (if \<not> SIGNATURE_REQUIRED e then Pass
      else (case extract_signature_line text of
              None \<Rightarrow> Stop RejectMissingSignature
            | Some sig_line \<Rightarrow>
                if sig_line = [] then Stop RejectMissingSignature
                else (case nova_key e of
                        None \<Rightarrow> Stop RejectKeyNotSet
                      | Some key \<Rightarrow>
                          if key = [] then Stop RejectKeyNotSet
                          else (case compare_digest sig_line (hmac_hex e data key) of
                                  None \<Rightarrow> Stop RaisedTypeError
                                | Some False \<Rightarrow> Stop RejectSignatureMismatch
                                | Some True \<Rightarrow> Pass))))"

text \<open>
  The swap: write the candidate to a temporary file, copy the target to the backup path
  when the target exists, move the temporary file onto the target. The first call that
  raises ends it (\<open>False\<close>: "write/swap error").
\<close>

definition swap :: "update_env \<Rightarrow> bytes \<Rightarrow> path \<Rightarrow> path \<Rightarrow> fs \<Rightarrow> bool \<times> fs" where
  "swap e data target_path backup_path fs =
     (case write_new (tmp_write e) fs (tmp_name e) data of
        (False, fs1) \<Rightarrow> (False, fs1)
      | (True, fs1) \<Rightarrow>
          (case (if fs1 target_path \<noteq> None
                 then copy2 (backup_copy e) fs1 target_path backup_path
                 else (True, fs1)) of
             (False, fs2) \<Rightarrow> (False, fs2)
           | (True, fs2) \<Rightarrow> shutil_move (move e) fs2 (tmp_name e) target_path))"

definition safe_update :: "update_env \<Rightarrow> string \<Rightarrow> path \<Rightarrow> path \<Rightarrow> fs \<Rightarrow> outcome \<times> fs" where
  "safe_update e current_version target_path backup_path fs =
     (case fetch_raw e of
        None \<Rightarrow> (FetchError, fs)
      | Some data \<Rightarrow>
          let text = decode e data in
          if \<not> contains ''BN version:'' text \<or> \<not> contains ''def main()'' text
          then (RejectNotBN, fs)
          else let remote_ver = parse_version text in
          if remote_ver = [] then (RejectMissingVersion, fs)
          else if \<not> version_gt remote_ver current_version
          then (UpToDate remote_ver current_version, fs)
          else (case signature_gate e data text of
                  Stop r \<Rightarrow> (r, fs)
                | Pass \<Rightarrow>
                    (case swap e data target_path backup_path fs of
                       (False, fs') \<Rightarrow> (SwapError, fs')
                     | (True, fs') \<Rightarrow> (Updated remote_ver, fs'))))"

text \<open>Candidates, an environment and an installed artifact to run the update on.\<close>

definition candidate_14_6 :: bytes where
  "candidate_14_6 = ''# BN version: 14.6'' @ [CHR 0x0A] @ ''# Nova-Signature: abc'' @ [CHR 0x0A]
     @ ''def main(): pass'' @ [CHR 0x0A]"

definition candidate_14_5 :: bytes where
  "candidate_14_5 = ''# BN version: 14.5'' @ [CHR 0x0A] @ ''def main(): pass'' @ [CHR 0x0A]"

definition candidate_no_entry :: bytes where
  "candidate_no_entry = ''# BN version: 14.5'' @ [CHR 0x0A]"

definition example_env :: "bytes \<Rightarrow> bool \<Rightarrow> string \<Rightarrow> move_env \<Rightarrow> update_env" where
  "example_env data required mac mv =
     \<lparr>fetch_raw = Some data, decode = (\<lambda>b. b), SIGNATURE_REQUIRED = required,
      nova_key = Some ''secret'', hmac_hex = (\<lambda>d k. mac), tmp_name = ''/tmp/tmpq1.py'',
      tmp_write = IoOk, backup_copy = IoOk, move = mv\<rparr>"

definition rename_works :: move_env where
  "rename_works = \<lparr>rename_ok = True, move_copy = IoOk, unlink_ok = True\<rparr>"

definition rename_refused_copy_cut :: move_env where
  "rename_refused_copy_cut = \<lparr>rename_ok = False, move_copy = IoFailsAfter 4, unlink_ok = True\<rparr>"

definition installed :: fs where
  "installed = [''bn.py'' \<mapsto> ''old'']"


section \<open>JSON values\<close>

text \<open>
  The values \<^verbatim>\<open>json.load\<close> returns. An object is the list of its items in the
  order of insertion, as a \<^verbatim>\<open>dict\<close> keeps them; a number with a fraction or an
  exponent is kept by its text.
\<close>

datatype jval =
    JNull
  | JBool bool
  | JInt int
  | JFloat string
  | JStr string
  | JList "jval list"
  | JObj "(string \<times> jval) list"

text \<open>\<^verbatim>\<open>d[k] = v\<close> on the items of a \<^verbatim>\<open>dict\<close>.\<close>

fun dict_set :: "(string \<times> jval) list \<Rightarrow> string \<Rightarrow> jval \<Rightarrow> (string \<times> jval) list" where
  "dict_set [] k v = [(k, v)]"
| "dict_set ((k', v') # kvs) k v =
     (if k' = k then (k, v) # kvs else (k', v') # dict_set kvs k v)"

text \<open>
  \<^verbatim>\<open>k in x\<close>, \<^verbatim>\<open>x[k] = v\<close> and \<^verbatim>\<open>x[k]\<close> for a key \<open>k\<close> that is a text, on any value
  \<open>x\<close>; \<open>None\<close> is the \<^verbatim>\<open>TypeError\<close> or \<^verbatim>\<open>KeyError\<close>.
\<close>

definition py_in :: "string \<Rightarrow> jval \<Rightarrow> bool option" where
  "py_in k x = (case x of
       JObj kvs \<Rightarrow> Some (k \<in> set (map fst kvs))
     | JList xs \<Rightarrow> Some (JStr k \<in> set xs)
     | JStr s \<Rightarrow> Some (contains k s)
     | _ \<Rightarrow> None)"

definition py_setitem :: "jval \<Rightarrow> string \<Rightarrow> jval \<Rightarrow> jval option" where
  "py_setitem x k v = (case x of JObj kvs \<Rightarrow> Some (JObj (dict_set kvs k v)) | _ \<Rightarrow> None)"

definition py_getitem :: "jval \<Rightarrow> string \<Rightarrow> jval option" where
  "py_getitem x k = (case x of JObj kvs \<Rightarrow> map_of kvs k | _ \<Rightarrow> None)"


section \<open>Bn.py: the state document and its file\<close>

definition MEM_PATH :: path where "MEM_PATH = ''state/memory.json''"
definition WAL_PATH :: path where "WAL_PATH = ''state/memory.wal''"
definition LOCK_PATH :: path where "LOCK_PATH = ''state/bn.lock''"
definition QUAR_DIR :: path where "QUAR_DIR = ''state/quarantine''"

text \<open>
  The document \<^verbatim>\<open>mem\<close> as \<^verbatim>\<open>main\<close>, \<^verbatim>\<open>learn\<close> and the saves work on it: the two
  fields they change, and the rest of it. What \<^verbatim>\<open>load_or_repair\<close> returns is a JSON
  value; \<open>as_memory\<close> below reads such a value as this document.
\<close>

record 'r memory =
  death_count :: int
  learned :: "string list"
  rest :: 'r

text \<open>Where one call of \<^verbatim>\<open>atomic_save_json\<close> raises, if it does.\<close>

datatype save_fault = SaveOk | MkstempFails | DumpFailsAfter nat | FsyncFails | ReplaceFails

text \<open>
  What the program meets outside itself: its process id, the clock (\<^verbatim>\<open>utc_iso\<close>,
  \<^verbatim>\<open>time.strftime\<close>), whether \<^verbatim>\<open>os.kill(pid, 0)\<close> returns for a process id, the JSON
  codec (\<open>json_loads\<close> is \<open>None\<close> when parsing raises), the two ways of reading a
  file as text (strict decoding, which can raise, and decoding that drops what it cannot
  read), the name \<^verbatim>\<open>mkstemp\<close> picks, and how the file operations go
  (\<open>lock_remove_ok\<close>: \<^verbatim>\<open>os.remove\<close> of an existing lock file does not raise).
  \<open>as_memory\<close> is the document a loaded JSON value is used as; it is \<open>None\<close> for a
  value that is no object, or has a field of a type on which the program's first use of
  it raises. \<open>default_rest\<close> are the items of the default document after its first
  five.
\<close>

record 'r bn_env =
  getpid :: int
  utc_iso :: string
  strftime :: string
  kill_ok :: "int \<Rightarrow> bool"
  json_dump :: "'r memory \<Rightarrow> string"
  json_loads :: "string \<Rightarrow> jval option"
  as_memory :: "jval \<Rightarrow> 'r memory option"
  read_strict :: "bytes \<Rightarrow> string option"
  read_ignore :: "bytes \<Rightarrow> string"
  default_rest :: "(string \<times> jval) list"
  mkstemp :: path
  save_fault :: save_fault
  replace_ok :: bool
  wal_ok :: bool
  lock_remove_ok :: bool

text \<open>The module's globals \<^verbatim>\<open>mem\<close> and \<^verbatim>\<open>_mem_dirty\<close>, and the files.\<close>

record 'r bn_state =
  mem :: "'r memory"
  mem_dirty :: bool
  files :: fs

definition default_memory :: "'r bn_env \<Rightarrow> jval" where
  "default_memory e =
     JObj ([(''version'', JInt 141), (''created_utc'', JStr (utc_iso e)),
            (''last_repair_utc'', JNull), (''death_count'', JInt 0), (''learned'', JList [])]
           @ default_rest e)"

text \<open>\<^verbatim>\<open>t.rfind(c)\<close>, with \<open>None\<close> for -1.\<close>

fun rfind :: "char \<Rightarrow> string \<Rightarrow> nat option" where
  "rfind c [] = None"
| "rfind c (x # xs) =
     (case rfind c xs of Some i \<Rightarrow> Some (Suc i)
      | None \<Rightarrow> if x = c then Some 0 else None)"

text \<open>The first attempt of \<^verbatim>\<open>load_or_repair\<close>: read strictly and parse.\<close>

definition json_load_file :: "'r bn_env \<Rightarrow> bytes \<Rightarrow> jval option" where
  "json_load_file e b = (case read_strict e b of None \<Rightarrow> None | Some t \<Rightarrow> json_loads e t)"

text \<open>The second attempt: read leniently, cut after the last closing brace and parse.\<close>

definition repair :: "'r bn_env \<Rightarrow> bytes \<Rightarrow> jval option" where
  "repair e b = (let t = read_ignore e b in
     case rfind CHR ''}'' t of None \<Rightarrow> None | Some i \<Rightarrow> json_loads e (take (i + 1) t))"

definition quarantine_path :: "'r bn_env \<Rightarrow> path" where
  "quarantine_path e = QUAR_DIR @ ''/memory.json.corrupt.'' @ strftime e"

text \<open>
  \<^verbatim>\<open>load_or_repair\<close>: the value it returns and the files it leaves. Whatever value the
  parser gives is returned as it is. A failure of the move into quarantine is swallowed.
\<close>

definition load_or_repair :: "'r bn_env \<Rightarrow> fs \<Rightarrow> jval \<times> fs" where
  "load_or_repair e fs =
     (case fs MEM_PATH of
        None \<Rightarrow> (default_memory e, fs)
      | Some b \<Rightarrow>
          (case json_load_file e b of
             Some d \<Rightarrow> (d, fs)
           | None \<Rightarrow>
               (case repair e b of
                  Some d \<Rightarrow> (d, fs)
                | None \<Rightarrow>
                    (default_memory e,
                     snd (os_replace (replace_ok e) fs MEM_PATH (quarantine_path e))))))"

definition mark_dirty :: "'r bn_state \<Rightarrow> 'r bn_state" where
  "mark_dirty st = st\<lparr>mem_dirty := True\<rparr>"

text \<open>
  The file systems that another process can see while \<^verbatim>\<open>atomic_save_json\<close> runs, in
  order: the temporary file as it grows (up to \<open>k\<close> characters), then either the
  rename onto the path or, when a call has raised, the removal of the temporary file.
  \<^verbatim>\<open>mkstemp\<close> raising happens before anything is written.
\<close>

definition written :: "fs \<Rightarrow> path \<Rightarrow> string \<Rightarrow> nat \<Rightarrow> fs list" where
  "written fs p s k = map (\<lambda>i. fs(p \<mapsto> take i s)) [0..<Suc (min k (length s))]"

definition atomic_save_json_steps ::
  "save_fault \<Rightarrow> path \<Rightarrow> string \<Rightarrow> path \<Rightarrow> fs \<Rightarrow> fs list" where
  "atomic_save_json_steps f tmp s p fs =
     (case f of
        MkstempFails \<Rightarrow> []
      | DumpFailsAfter k \<Rightarrow> written fs tmp s k @ [fs(tmp := None)]
      | FsyncFails \<Rightarrow> written fs tmp s (length s) @ [fs(tmp := None)]
      | ReplaceFails \<Rightarrow> written fs tmp s (length s) @ [fs(tmp := None)]
      | SaveOk \<Rightarrow> written fs tmp s (length s) @ [(fs(tmp := None))(p \<mapsto> s)])"

text \<open>\<^verbatim>\<open>atomic_save_json\<close>: whether it returned, and the files it leaves.\<close>

definition atomic_save_json ::
  "save_fault \<Rightarrow> path \<Rightarrow> string \<Rightarrow> path \<Rightarrow> fs \<Rightarrow> bool \<times> fs" where
  "atomic_save_json f tmp s p fs = (f = SaveOk, last (fs # atomic_save_json_steps f tmp s p fs))"

text \<open>\<^verbatim>\<open>save_memory\<close>: the flag is cleared only after the save has returned.\<close>

definition save_memory :: "'r bn_env \<Rightarrow> 'r bn_state \<Rightarrow> bool \<times> 'r bn_state" where
  "save_memory e st =
     (case atomic_save_json (save_fault e) (mkstemp e) (json_dump e (mem st)) MEM_PATH (files st) of
        (True, fs') \<Rightarrow> (True, st\<lparr>files := fs', mem_dirty := False\<rparr>)
      | (False, fs') \<Rightarrow> (False, st\<lparr>files := fs'\<rparr>))"

text \<open>\<^verbatim>\<open>wal_log\<close>: one more line in the journal; a failure is swallowed.\<close>

definition wal_log :: "'r bn_env \<Rightarrow> string \<Rightarrow> 'r bn_state \<Rightarrow> 'r bn_state" where
  "wal_log e event st =
     (if wal_ok e
      then st\<lparr>files := append_file (files st) WAL_PATH (utc_iso e @ '' '' @ event @ [CHR 0x0A])\<rparr>
      else st)"

definition learn :: "'r bn_env \<Rightarrow> string \<Rightarrow> 'r bn_state \<Rightarrow> 'r bn_state" where
  "learn e item st =
     mark_dirty (wal_log e (''learn:'' @ item)
       (st\<lparr>mem := (mem st)\<lparr>learned := learned (mem st) @ [item]\<rparr>\<rparr>))"

text \<open>
  One turn of \<^verbatim>\<open>autosave_loop\<close> after its sleep: the files another process can see
  during it, and the state it leaves. An exception of the save is caught by the loop.
\<close>

definition autosave_cycle_steps :: "'r bn_env \<Rightarrow> 'r bn_state \<Rightarrow> fs list" where
  "autosave_cycle_steps e st =
     (if mem_dirty st
      then atomic_save_json_steps (save_fault e) (mkstemp e) (json_dump e (mem st)) MEM_PATH (files st)
      else [])"

definition autosave_cycle :: "'r bn_env \<Rightarrow> 'r bn_state \<Rightarrow> 'r bn_state" where
  "autosave_cycle e st = (if mem_dirty st then snd (save_memory e st) else st)"

text \<open>
  A run of saves to one path, each with its own fault, temporary name and serialized
  document: during every save each visible file system has at the path what was there
  before that save or the whole new document, and a save that raises leaves there what
  was there before it.
\<close>

fun saves_atomic :: "path \<Rightarrow> fs \<Rightarrow> (save_fault \<times> path \<times> string) list \<Rightarrow> bool" where
  "saves_atomic p fs [] = True"
| "saves_atomic p fs ((f, tmp, s) # later) =
     ((\<forall>st \<in> set (atomic_save_json_steps f tmp s p fs). st p = fs p \<or> st p = Some s)
      \<and> (f \<noteq> SaveOk \<longrightarrow> \<not> fst (atomic_save_json f tmp s p fs)
                        \<and> snd (atomic_save_json f tmp s p fs) p = fs p)
      \<and> (f = SaveOk \<longrightarrow> snd (atomic_save_json f tmp s p fs) p = Some s)
      \<and> saves_atomic p (snd (atomic_save_json f tmp s p fs)) later)"


section \<open>Bn.py: the lock file and the death count\<close>

text \<open>\<^verbatim>\<open>write_lock\<close>; the write itself is taken to succeed.\<close>

definition write_lock :: "'r bn_env \<Rightarrow> 'r bn_state \<Rightarrow> 'r bn_state" where
  "write_lock e st =
     st\<lparr>files := (files st)(LOCK_PATH \<mapsto> str_int (getpid e) @ ''|'' @ utc_iso e @ [CHR 0x0A])\<rparr>"

text \<open>
  \<^verbatim>\<open>remove_lock\<close>: a missing file is no error (\<^verbatim>\<open>FileNotFoundError\<close> is caught); any
  other error of \<^verbatim>\<open>os.remove\<close> is raised to the caller (\<open>None\<close>).
\<close>

definition remove_lock :: "'r bn_env \<Rightarrow> 'r bn_state \<Rightarrow> 'r bn_state option" where
  "remove_lock e st =
     (case files st LOCK_PATH of
        None \<Rightarrow> Some st
      | Some content \<Rightarrow>
          if lock_remove_ok e then Some (st\<lparr>files := (files st)(LOCK_PATH := None)\<rparr>)
          else None)"

text \<open>
  \<^verbatim>\<open>int((f.read().strip().split("|") or ["0"])[0])\<close>; \<open>None\<close> when it raises, which
  sets \<^verbatim>\<open>old_pid = None\<close>.
\<close>

definition read_old_pid :: "string \<Rightarrow> int option" where
  "read_old_pid content =
     (case split_char CHR ''|'' (strip content) of
        [] \<Rightarrow> py_int ''0''
      | field # _ \<Rightarrow> py_int field)"

text \<open>
  \<^verbatim>\<open>cleanup_stale_lock\<close>: \<^verbatim>\<open>os.kill(None, 0)\<close> always raises, \<^verbatim>\<open>os.kill(old_pid, 0)\<close>
  raises unless \<open>kill_ok\<close>; the handler of that exception removes the lock and
  returns \<open>True\<close>. An exception of the removal leaves the function (\<open>None\<close>).
\<close>

definition stale_branch :: "'r bn_env \<Rightarrow> 'r bn_state \<Rightarrow> (bool \<times> 'r bn_state) option" where
  "stale_branch e st = map_option (\<lambda>st'. (True, st')) (remove_lock e st)"

definition cleanup_stale_lock :: "'r bn_env \<Rightarrow> 'r bn_state \<Rightarrow> (bool \<times> 'r bn_state) option" where
  "cleanup_stale_lock e st =
     (case files st LOCK_PATH of
        None \<Rightarrow> Some (True, st)
      | Some content \<Rightarrow>
          (case read_old_pid content of
             None \<Rightarrow> stale_branch e st
           | Some old_pid \<Rightarrow>
               if kill_ok e old_pid then Some (False, st) else stale_branch e st))"

text \<open>
  The first statements of \<^verbatim>\<open>main\<close>, up to and with \<^verbatim>\<open>write_lock()\<close>. \<open>None\<close>: an
  exception has left \<^verbatim>\<open>main\<close> before its \<^verbatim>\<open>try\<close>, and the process ends.
\<close>

definition main_startup :: "'r bn_env \<Rightarrow> 'r bn_state \<Rightarrow> 'r bn_state option" where
  "main_startup e st =
     (case cleanup_stale_lock e st of
        None \<Rightarrow> None
      | Some (True, st1) \<Rightarrow>
          Some (write_lock e (mark_dirty (wal_log e ''death:1''
            (st1\<lparr>mem := (mem st1)\<lparr>death_count := death_count (mem st1) + 1\<rparr>\<rparr>))))
      | Some (False, st1) \<Rightarrow> Some (write_lock e st1))"

text \<open>
  A start of the process: the module loads \<^verbatim>\<open>mem\<close>, then \<^verbatim>\<open>main\<close> runs. \<open>None\<close>
  when it ends in an exception.
\<close>

definition boot :: "'r bn_env \<Rightarrow> fs \<Rightarrow> 'r bn_state option" where
  "boot e fs =
     (case as_memory e (fst (load_or_repair e fs)) of
        None \<Rightarrow> None
      | Some m \<Rightarrow>
          main_startup e \<lparr>mem = m, mem_dirty = False, files = snd (load_or_repair e fs)\<rparr>)"

text \<open>
  An environment to run the program in: process 4711, no other process alive but 4242,
  and a codec that writes the death count alone and reads a number as an object with
  that death count.
\<close>

definition death_count_of :: "jval \<Rightarrow> unit memory option" where
  "death_count_of j =
     (case py_getitem j ''death_count'' of
        Some (JInt i) \<Rightarrow> Some \<lparr>death_count = i, learned = [], rest = ()\<rparr>
      | _ \<Rightarrow> None)"

definition example_bn_env :: "unit bn_env" where
  "example_bn_env =
     \<lparr>getpid = 4711, utc_iso = ''t1'', strftime = ''ts'', kill_ok = (\<lambda>p. p = 4242),
      json_dump = (\<lambda>m. str_int (death_count m)),
      json_loads = (\<lambda>s. map_option (\<lambda>i. JObj [(''death_count'', JInt i)]) (py_int s)),
      as_memory = death_count_of,
      read_strict = Some, read_ignore = (\<lambda>b. b), default_rest = [],
      mkstemp = ''state/.tmp_x'', save_fault = SaveOk, replace_ok = True, wal_ok = True,
      lock_remove_ok = True\<rparr>"

definition no_deaths :: "unit memory" where
  "no_deaths = \<lparr>death_count = 0, learned = [], rest = ()\<rparr>"

definition fresh_state :: "unit bn_state" where
  "fresh_state = \<lparr>mem = no_deaths, mem_dirty = False, files = Map.empty\<rparr>"

definition held_state :: "unit bn_state" where
  "held_state = \<lparr>mem = no_deaths, mem_dirty = False,
                  files = [LOCK_PATH \<mapsto> ''4242|t0'' @ [CHR 0x0A]]\<rparr>"


text \<open>
  A state file with text after its object, and an environment for loading: a parser that
  knows that object and the number 42, and refuses every other text.
\<close>

definition trailing_garbage :: bytes where
  \<open>trailing_garbage = ''{"facts": {}, "death_count": 7}#%''\<close>

definition example_load_env :: "unit bn_env" where
  \<open>example_load_env =
     example_bn_env\<lparr>
       json_loads := (\<lambda>s. if s = ''{"facts": {}, "death_count": 7}''
                          then Some (JObj [(''facts'', JObj []), (''death_count'', JInt 7)])
                          else if s = ''42'' then Some (JInt 42) else None)\<rparr>\<close>

text \<open>The state after a first start with no files at all.\<close>

definition after_first_boot :: "unit bn_state" where
  "after_first_boot =
     \<lparr>mem = \<lparr>death_count = 1, learned = [], rest = ()\<rparr>, mem_dirty = True,
      files = [WAL_PATH \<mapsto> ''t1 death:1'' @ [CHR 0x0A], LOCK_PATH \<mapsto> ''4711|t1'' @ [CHR 0x0A]]\<rparr>"


section \<open>bn.py: the state document and its file\<close>

definition MEM_PATH_core :: path where "MEM_PATH_core = ''bn_memory.json''"

definition DEFAULT_FLAGS :: "(string \<times> jval) list" where
  "DEFAULT_FLAGS =
     [(''phase_persistence'', JBool True), (''web_ui_enabled'', JBool False),
      (''auto_update_enabled'', JBool False)]"

definition DEFAULT_MEM :: "(string \<times> jval) list" where
  "DEFAULT_MEM =
     [(''identity'', JStr ''ownself''), (''name'', JNull), (''revision_count'', JInt 0),
      (''created_at'', JNull), (''updated_at'', JNull), (''flags'', JObj DEFAULT_FLAGS),
      (''auto_update_minutes'', JInt 60), (''last_update_check'', JNull),
      (''last_update_result'', JNull), (''nova_key'', JNull),
      (''module_whitelist'', JList [JStr ''web_ui'', JStr ''classroom'', JStr ''voice'']),
      (''module_active'', JObj []), (''notes'', JList [])]"

text \<open>
  What bn.py meets outside itself when it loads and saves: the clock, the JSON codec
  (\<open>loads_core\<close> is \<open>None\<close> when opening, decoding or parsing raises) and how the write
  of the state file goes.
\<close>

record core_env =
  now_iso :: string
  dump_core :: "jval \<Rightarrow> string"
  loads_core :: "bytes \<Rightarrow> jval option"
  mem_write :: io_fault

text \<open>The global \<^verbatim>\<open>_mem\<close> (\<open>None\<close> before the first load) and the files.\<close>

record core_state =
  mem_core :: "jval option"
  files_core :: fs

text \<open>
  The file systems another process can see while \<open>p\<close> is opened for writing and
  \<open>s\<close> is written into it: the emptied file first, then the file as it grows.
\<close>

definition write_in_place_steps :: "io_fault \<Rightarrow> fs \<Rightarrow> path \<Rightarrow> string \<Rightarrow> fs list" where
  "write_in_place_steps f fs p s =
     (case f of
        IoFailsBefore \<Rightarrow> []
      | IoFailsAfter k \<Rightarrow> map (\<lambda>i. fs(p \<mapsto> take i s)) [0..<Suc (min k (length s))]
      | IoOk \<Rightarrow> map (\<lambda>i. fs(p \<mapsto> take i s)) [0..<Suc (length s)])"

text \<open>
  \<^verbatim>\<open>save_memory\<close> of bn.py: nothing without a document; otherwise stamp the document
  and write it into the state file itself. Every exception is caught and printed.
\<close>

definition save_memory_core_steps :: "core_env \<Rightarrow> core_state \<Rightarrow> fs list" where
  "save_memory_core_steps e st =
     (case mem_core st of
        None \<Rightarrow> []
      | Some m \<Rightarrow>
          (case py_setitem m ''updated_at'' (JStr (now_iso e)) of
             None \<Rightarrow> []
           | Some m' \<Rightarrow>
               write_in_place_steps (mem_write e) (files_core st) MEM_PATH_core (dump_core e m')))"

definition save_memory_core :: "core_env \<Rightarrow> core_state \<Rightarrow> core_state" where
  "save_memory_core e st =
     (case mem_core st of
        None \<Rightarrow> st
      | Some m \<Rightarrow>
          (case py_setitem m ''updated_at'' (JStr (now_iso e)) of
             None \<Rightarrow> st
           | Some m' \<Rightarrow>
               \<lparr>mem_core = Some m',
                files_core = snd (write_new (mem_write e) (files_core st) MEM_PATH_core
                                    (dump_core e m'))\<rparr>))"

text \<open>The fresh document of \<^verbatim>\<open>load_memory\<close>, stamped and saved.\<close>

definition fresh_memory_core :: "core_env \<Rightarrow> core_state \<Rightarrow> core_state" where
  "fresh_memory_core e st =
     save_memory_core e
       (st\<lparr>mem_core := Some (JObj (dict_set (dict_set DEFAULT_MEM ''created_at'' (JStr (now_iso e)))
                                        ''updated_at'' (JStr (now_iso e))))\<rparr>)"

text \<open>
  The back-filling loops of \<^verbatim>\<open>load_memory\<close>: every default key that is not \<^verbatim>\<open>in\<close> the
  value is set in it; the flag says whether one was. \<open>None\<close> when a step raises.
\<close>

fun patch_keys :: "(string \<times> jval) list \<Rightarrow> jval \<Rightarrow> bool \<Rightarrow> (jval \<times> bool) option" where
  "patch_keys [] m changed = Some (m, changed)"
| "patch_keys ((k, v) # kvs) m changed =
     (case py_in k m of
        None \<Rightarrow> None
      | Some True \<Rightarrow> patch_keys kvs m changed
      | Some False \<Rightarrow>
          (case py_setitem m k v of None \<Rightarrow> None | Some m' \<Rightarrow> patch_keys kvs m' True))"

definition migrate :: "jval \<Rightarrow> (jval \<times> bool) option" where
  "migrate j =
     (case patch_keys DEFAULT_MEM j False of
        None \<Rightarrow> None
      | Some (m1, c1) \<Rightarrow>
          (case py_in ''flags'' m1 of
             None \<Rightarrow> None
           | Some has \<Rightarrow>
               (case (if has then Some (m1, c1)
                      else map_option (\<lambda>m. (m, True)) (py_setitem m1 ''flags'' (JObj []))) of
                  None \<Rightarrow> None
                | Some (m2, c2) \<Rightarrow>
                    (case py_getitem m2 ''flags'' of
                       None \<Rightarrow> None
                     | Some fl \<Rightarrow>
                         (case patch_keys DEFAULT_FLAGS fl c2 of
                            None \<Rightarrow> None
                          | Some (fl', c3) \<Rightarrow>
                              map_option (\<lambda>m. (m, c3)) (py_setitem m2 ''flags'' fl'))))))"

text \<open>
  \<^verbatim>\<open>load_memory\<close>: a fresh document when there is no state file; the parsed and
  back-filled document, saved when a field was added; and on any exception a fresh
  document, which is saved over the state file.
\<close>

definition load_memory :: "core_env \<Rightarrow> core_state \<Rightarrow> core_state" where
  "load_memory e st =
     (case files_core st MEM_PATH_core of
        None \<Rightarrow> fresh_memory_core e st
      | Some b \<Rightarrow>
          (case loads_core e b of
             None \<Rightarrow> fresh_memory_core e st
           | Some j \<Rightarrow>
               (case migrate j of
                  None \<Rightarrow> fresh_memory_core e st
                | Some (m, changed) \<Rightarrow>
                    if changed then save_memory_core e (st\<lparr>mem_core := Some m\<rparr>)
                    else st\<lparr>mem_core := Some m\<rparr>)))"

text \<open>One turn of bn.py's \<^verbatim>\<open>autosave_loop\<close>: it saves, whatever has happened since.\<close>

definition autosave_cycle_core_steps :: "core_env \<Rightarrow> core_state \<Rightarrow> fs list" where
  "autosave_cycle_core_steps e st = save_memory_core_steps e st"

definition autosave_cycle_core :: "core_env \<Rightarrow> core_state \<Rightarrow> core_state" where
  "autosave_cycle_core e st = save_memory_core e st"

text \<open>
  An environment for bn.py whose codec writes every document as \<open>{new}\<close> and reads
  nothing, a state whose file holds an older document, and one whose file was cut short.
\<close>

definition example_core_env :: core_env where
  "example_core_env =
     \<lparr>now_iso = ''t1'', dump_core = (\<lambda>j. ''{new}''), loads_core = (\<lambda>b. None), mem_write = IoOk\<rparr>"

definition saved_core_state :: core_state where
  "saved_core_state =
     \<lparr>mem_core = Some (JObj DEFAULT_MEM), files_core = [MEM_PATH_core \<mapsto> ''{old}'']\<rparr>"

definition corrupt_core_state :: core_state where
  "corrupt_core_state = \<lparr>mem_core = None, files_core = [MEM_PATH_core \<mapsto> ''{cut'']\<rparr>"


section \<open>Theorems: versions\<close>

lemmas int_simps = py_int_def int_strip_def int_isspace_def INT_MAX_STR_DIGITS_def parse_nat_def
  py_isdigit_def digit_val_def

lemma tuple_gt_irrefl: "\<not> tuple_gt xs xs"
  by (induction xs) auto

lemma tuple_gt_trans: "tuple_gt xs ys \<Longrightarrow> tuple_gt ys zs \<Longrightarrow> tuple_gt xs zs"
proof (induction xs ys arbitrary: zs rule: tuple_gt.induct)
  case (1 ys)
  then show ?case by simp
next
  case (2 x xs)
  then show ?case by simp
next
  case (3 x xs y ys)
  then show ?case
    by (cases zs) (auto split: if_splits)
qed

lemma tuple_gt_asym: "tuple_gt xs ys \<Longrightarrow> \<not> tuple_gt ys xs"
  using tuple_gt_trans tuple_gt_irrefl by blast

lemma tuple_gt_total: "xs \<noteq> ys \<Longrightarrow> tuple_gt xs ys \<or> tuple_gt ys xs"
proof (induction xs ys rule: tuple_gt.induct)
  case (1 ys)
  then show ?case by (cases ys) auto
next
  case (2 x xs)
  then show ?case by simp
next
  case (3 x xs y ys)
  then show ?case by auto
qed

lemma version_tuple_14_5: "version_tuple ''14.5'' = [14, 5]"
  by (simp add: version_tuple_def int_simps strip_def py_isspace_def parse_nat_def
      py_isdigit_def digit_val_def)

lemma version_tuple_14_10: "version_tuple ''14.10'' = [14, 10]"
  by (simp add: version_tuple_def int_simps strip_def py_isspace_def parse_nat_def
      py_isdigit_def digit_val_def)

text \<open>
  C6. \<open>version_gt\<close> is the strict part of a total order on the tuples of integers that
  \<open>version_tuple\<close> reads from the dotted strings, decided at the first component that
  differs: it is irreflexive on every string, transitive, asymmetric, and two strings with
  different tuples are always ordered one way. "14.5" is not greater than "14.10",
  "14.10" is greater than "14.5", and "14.5" is not greater than itself.
\<close>

theorem version_gt_strict_total_order:
  "\<not> version_gt v v
   \<and> (version_gt a b \<and> version_gt b c \<longrightarrow> version_gt a c)
   \<and> (version_gt a b \<longrightarrow> \<not> version_gt b a)
   \<and> (version_tuple a \<noteq> version_tuple b \<longrightarrow> version_gt a b \<or> version_gt b a)
   \<and> \<not> version_gt ''14.5'' ''14.10''
   \<and> version_gt ''14.10'' ''14.5''
   \<and> \<not> version_gt ''14.5'' ''14.5''"
proof -
  have "\<not> version_gt v v"
    by (simp add: version_gt_def tuple_gt_irrefl)
  moreover have "version_gt a b \<and> version_gt b c \<longrightarrow> version_gt a c"
    unfolding version_gt_def using tuple_gt_trans by blast
  moreover have "version_gt a b \<longrightarrow> \<not> version_gt b a"
    unfolding version_gt_def using tuple_gt_asym by blast
  moreover have "version_tuple a \<noteq> version_tuple b \<longrightarrow> version_gt a b \<or> version_gt b a"
    unfolding version_gt_def using tuple_gt_total by blast
  moreover have "\<not> version_gt ''14.5'' ''14.10''"
    by (simp add: version_gt_def version_tuple_14_5 version_tuple_14_10)
  moreover have "version_gt ''14.10'' ''14.5''"
    by (simp add: version_gt_def version_tuple_14_5 version_tuple_14_10)
  moreover have "\<not> version_gt ''14.5'' ''14.5''"
    by (simp add: version_gt_def tuple_gt_irrefl)
  ultimately show ?thesis by blast
qed

lemma version_tuple_14_1: "version_tuple ''14.1'' = [14, 1]"
  by (simp add: version_tuple_def int_simps strip_def py_isspace_def parse_nat_def
      py_isdigit_def digit_val_def)

theorem version_gt_strict_total_order_witness:
  "version_gt ''14.10'' ''14.5'' \<and> version_gt ''14.5'' ''14.1''
   \<and> version_gt ''14.10'' ''14.1'' \<and> \<not> version_gt ''14.5'' ''14.10''
   \<and> version_tuple ''14.10'' \<noteq> version_tuple ''14.5''"
proof -
  have a: "version_gt ''14.10'' ''14.5''"
    by (simp add: version_gt_def version_tuple_14_5 version_tuple_14_10)
  have b: "version_gt ''14.5'' ''14.1''"
    by (simp add: version_gt_def version_tuple_14_5 version_tuple_14_1)
  have d: "version_tuple ''14.10'' \<noteq> version_tuple ''14.5''"
    by (simp add: version_tuple_14_5 version_tuple_14_10)
  from a b d version_gt_strict_total_order [of "''14.10''" "''14.10''" "''14.5''" "''14.1''"]
  show ?thesis by blast
qed


section \<open>Theorems: the update\<close>

lemma startswith_iff: "startswith s p \<longleftrightarrow> (\<exists>q. s = p @ q)"
  by (induction s p rule: startswith.induct) auto

lemma contains_iff: "contains sub s \<longleftrightarrow> (\<exists>p q. s = p @ sub @ q)"
proof (induction s)
  case Nil
  then show ?case by auto
next
  case (Cons c cs)
  show ?case
  proof
    assume "contains sub (c # cs)"
    then consider "startswith (c # cs) sub" | "contains sub cs" by auto
    then show "\<exists>p q. c # cs = p @ sub @ q"
    proof cases
      case 1
      then obtain q where "c # cs = sub @ q" by (auto simp: startswith_iff)
      then have "c # cs = [] @ sub @ q" by simp
      then show ?thesis by blast
    next
      case 2
      then obtain p q where "cs = p @ sub @ q" using Cons.IH by blast
      then have "c # cs = (c # p) @ sub @ q" by simp
      then show ?thesis by blast
    qed
  next
    assume "\<exists>p q. c # cs = p @ sub @ q"
    then obtain p q where pq: "c # cs = p @ sub @ q" by blast
    show "contains sub (c # cs)"
    proof (cases p)
      case Nil
      then have "startswith (c # cs) sub" using pq unfolding startswith_iff by auto
      then show ?thesis by simp
    next
      case (Cons a p')
      then have "cs = p' @ sub @ q" using pq by simp
      then show ?thesis using Cons.IH by auto
    qed
  qed
qed

lemma splitlines_from_sub:
  "l \<in> set (splitlines_from cur s) \<Longrightarrow> \<exists>p q. rev cur @ s = p @ l @ q"
proof (induction cur s rule: splitlines_from.induct)
  case (1 cur)
  then show ?case by (auto split: if_splits intro: exI[of _ "[]"])
next
  case (2 cur c cs)
  show ?case
  proof (cases "c = CHR 0x0D \<and> cs \<noteq> [] \<and> hd cs = CHR 0x0A")
    case True
    with 2 have "l = rev cur \<or> l \<in> set (splitlines_from [] (tl cs))" by auto
    then show ?thesis
    proof
      assume "l = rev cur"
      then have "rev cur @ c # cs = [] @ l @ (c # cs)" by simp
      then show ?thesis by blast
    next
      assume "l \<in> set (splitlines_from [] (tl cs))"
      then obtain p q where "tl cs = p @ l @ q" using 2(1)[OF True] by auto
      moreover from True have "cs = hd cs # tl cs" by (cases cs) auto
      ultimately have "rev cur @ c # cs = (rev cur @ [c, hd cs] @ p) @ l @ q" by simp
      then show ?thesis by blast
    qed
  next
    case False
    note nf = False
    show ?thesis
    proof (cases "is_linebreak c")
      case True
      with 2 nf have "l = rev cur \<or> l \<in> set (splitlines_from [] cs)" by auto
      then show ?thesis
      proof
        assume "l = rev cur"
        then have "rev cur @ c # cs = [] @ l @ (c # cs)" by simp
        then show ?thesis by blast
      next
        assume "l \<in> set (splitlines_from [] cs)"
        then obtain p q where "cs = p @ l @ q" using 2(2)[OF nf True] by auto
        then have "rev cur @ c # cs = (rev cur @ [c] @ p) @ l @ q" by simp
        then show ?thesis by blast
      qed
    next
      case False
      with 2 nf have "l \<in> set (splitlines_from (c # cur) cs)" by auto
      then obtain p q where "rev (c # cur) @ cs = p @ l @ q" using 2(3)[OF nf False] by blast
      then show ?thesis by auto
    qed
  qed
qed

lemma first_line_with_Some:
  "first_line_with m ls = Some l \<Longrightarrow> l \<in> set ls \<and> contains m l"
  by (induction ls) (auto split: if_splits)

lemma line_marker_in_text:
  assumes "first_line_with m (take n (splitlines text)) = Some l"
  shows "contains m text"
proof -
  from assms have "l \<in> set (take n (splitlines text))" and c: "contains m l"
    using first_line_with_Some by blast+
  then have "l \<in> set (splitlines_from [] text)"
    by (auto simp: splitlines_def dest: in_set_takeD)
  then obtain p q where t: "text = p @ l @ q" using splitlines_from_sub by fastforce
  from c obtain p' q' where "l = p' @ m @ q'" by (auto simp: contains_iff)
  with t have "text = (p @ p') @ m @ (q' @ q)" by simp
  then show ?thesis unfolding contains_iff by blast
qed

lemma parse_version_marker:
  "parse_version text \<noteq> [] \<Longrightarrow> contains ''BN version:'' text"
  unfolding parse_version_def
  by (auto split: option.splits dest: line_marker_in_text)

lemma signature_gate_Pass:
  "SIGNATURE_REQUIRED e \<Longrightarrow> signature_gate e data text = Pass \<Longrightarrow>
   \<exists>key. nova_key e = Some key \<and> extract_signature_line text = Some (hmac_hex e data key)"
  by (auto simp: signature_gate_def compare_digest_def
      split: option.splits if_splits bool.splits)

lemma signature_gate_Stop:
  "signature_gate e data text = Stop r \<Longrightarrow>
   r = RejectMissingSignature \<or> r = RejectKeyNotSet \<or> r = RejectSignatureMismatch
   \<or> r = RaisedTypeError"
  by (auto simp: signature_gate_def split: option.splits if_splits bool.splits)

lemma safe_update_Updated_gate:
  "fetch_raw e = Some data \<Longrightarrow> fst (safe_update e cur tp bp fs) = Updated v \<Longrightarrow>
   signature_gate e data (decode e data) = Pass"
  by (auto simp: safe_update_def Let_def dest: signature_gate_Stop
      split: if_splits gate.splits prod.splits bool.splits)

lemma safe_update_not_Pass:
  "fetch_raw e = Some data \<Longrightarrow> signature_gate e data (decode e data) \<noteq> Pass \<Longrightarrow>
   snd (safe_update e cur tp bp fs) = fs
   \<and> fst (safe_update e cur tp bp fs) \<noteq> SwapError
   \<and> (\<forall>v. fst (safe_update e cur tp bp fs) \<noteq> Updated v)"
  by (auto simp: safe_update_def Let_def dest: signature_gate_Stop
      split: if_splits gate.splits prod.splits bool.splits)

text \<open>
  C2. With signature enforcement on, \<open>safe_update\<close> installs the fetched candidate only
  if the candidate has a signature line and a key is stored and the line's value is
  \<open>hmac_hex\<close> of the full candidate bytes under that key (the value
  \<open>compare_digest\<close> compares it with). A candidate without a signature line, with
  no key stored, or with any other signature value (so also a payload changed after it
  was signed), whatever version it declares, is not installed: the swap is never reached
  and no file changes.
\<close>

theorem signature_enforced:
  assumes "SIGNATURE_REQUIRED e" and "fetch_raw e = Some data"
  shows "(fst (safe_update e cur tp bp fs) = Updated v \<longrightarrow>
            (\<exists>key. nova_key e = Some key
               \<and> extract_signature_line (decode e data) = Some (hmac_hex e data key)))
       \<and> (extract_signature_line (decode e data) = None
            \<or> nova_key e = None
            \<or> extract_signature_line (decode e data) \<noteq> Some (hmac_hex e data (the (nova_key e)))
          \<longrightarrow> snd (safe_update e cur tp bp fs) = fs
              \<and> fst (safe_update e cur tp bp fs) \<noteq> SwapError
              \<and> (\<forall>w. fst (safe_update e cur tp bp fs) \<noteq> Updated w))"
proof (intro conjI impI)
  assume "fst (safe_update e cur tp bp fs) = Updated v"
  then have "signature_gate e data (decode e data) = Pass"
    using assms(2) safe_update_Updated_gate by blast
  then show "\<exists>key. nova_key e = Some key
               \<and> extract_signature_line (decode e data) = Some (hmac_hex e data key)"
    using assms(1) signature_gate_Pass by blast
next
  assume bad: "extract_signature_line (decode e data) = None
            \<or> nova_key e = None
            \<or> extract_signature_line (decode e data) \<noteq> Some (hmac_hex e data (the (nova_key e)))"
  have np: "signature_gate e data (decode e data) \<noteq> Pass"
  proof
    assume "signature_gate e data (decode e data) = Pass"
    from signature_gate_Pass [OF assms(1) this] bad show False by auto
  qed
  from safe_update_not_Pass [OF assms(2) np]
  show "snd (safe_update e cur tp bp fs) = fs"
    and "fst (safe_update e cur tp bp fs) \<noteq> SwapError"
    and "\<forall>w. fst (safe_update e cur tp bp fs) \<noteq> Updated w" by blast+
qed

lemma safe_update_mismatch_result:
  assumes "SIGNATURE_REQUIRED e" and "fetch_raw e = Some data"
    and "contains ''def main()'' (decode e data)"
    and "parse_version (decode e data) \<noteq> []"
    and "version_gt (parse_version (decode e data)) cur"
    and "extract_signature_line (decode e data) = Some s" and "s \<noteq> []"
    and "nova_key e = Some key" and "key \<noteq> []"
    and "list_all is_ascii s" and "list_all is_ascii (hmac_hex e data key)"
    and "s \<noteq> hmac_hex e data key"
  shows "safe_update e cur tp bp fs = (RejectSignatureMismatch, fs)"
  using assms parse_version_marker [of "decode e data"]
  by (simp add: safe_update_def Let_def signature_gate_def compare_digest_def)

text \<open>
  C7 (as amended). For every update attempt whose fetched candidate holds the entry-point
  marker and declares, within its first 30 lines, a version that is not greater than the
  running one, \<open>safe_update\<close> returns the up-to-date result and leaves every file as
  it was; running it again on the files it left gives the same result.
\<close>

theorem up_to_date:
  assumes "fetch_raw e = Some data"
    and "contains ''def main()'' (decode e data)"
    and "parse_version (decode e data) = v" and "v \<noteq> []"
    and "\<not> version_gt v cur"
  shows "safe_update e cur tp bp fs = (UpToDate v cur, fs)
       \<and> safe_update e cur tp bp (snd (safe_update e cur tp bp fs)) = safe_update e cur tp bp fs"
  using assms parse_version_marker [of "decode e data"]
  by (simp add: safe_update_def Let_def)

lemma not_newer_not_installed:
  assumes "fetch_raw e = Some data"
    and "\<not> version_gt (parse_version (decode e data)) cur"
  shows "snd (safe_update e cur tp bp fs) = fs \<and> (\<forall>w. fst (safe_update e cur tp bp fs) \<noteq> Updated w)"
  using assms by (auto simp: safe_update_def Let_def split: gate.splits prod.splits bool.splits)

lemmas text_simps = splitlines_def is_linebreak_def strip_def py_isspace_def split1_last_def

lemma pv_14_6: "parse_version candidate_14_6 = ''14.6''"
  by (simp add: candidate_14_6_def parse_version_def text_simps)

lemma pv_14_5: "parse_version candidate_14_5 = ''14.5''"
  by (simp add: candidate_14_5_def parse_version_def text_simps)

lemma pv_no_entry: "parse_version candidate_no_entry = ''14.5''"
  by (simp add: candidate_no_entry_def parse_version_def text_simps)

lemma sig_14_6: "extract_signature_line candidate_14_6 = Some ''abc''"
  by (simp add: candidate_14_6_def extract_signature_line_def text_simps)

lemma main_14_6: "contains ''def main()'' candidate_14_6"
  by (simp add: candidate_14_6_def)

lemma main_14_5: "contains ''def main()'' candidate_14_5"
  by (simp add: candidate_14_5_def)

lemma marker_14_6: "contains ''BN version:'' candidate_14_6"
  by (simp add: candidate_14_6_def)

lemma version_tuple_14_6: "version_tuple ''14.6'' = [14, 6]"
  by (simp add: version_tuple_def int_simps strip_def py_isspace_def parse_nat_def
      py_isdigit_def digit_val_def)

lemma gt_14_6: "version_gt ''14.6'' ''14.5''"
  by (simp add: version_gt_def version_tuple_14_6 version_tuple_14_5)

lemma not_gt_14_5: "\<not> version_gt ''14.5'' ''14.5''"
  by (simp add: version_gt_def tuple_gt_irrefl)

lemma no_main_no_entry: "\<not> contains ''def main()'' candidate_no_entry"
  by (simp add: candidate_no_entry_def)

lemma take_4_candidate: "take 4 candidate_14_6 = ''# BN''"
  by (simp add: candidate_14_6_def)

lemma signed_install_example:
  "safe_update (example_env candidate_14_6 True ''abc'' rename_works)
     ''14.5'' ''bn.py'' ''bn_prev.py'' installed
   = (Updated ''14.6'', [''bn_prev.py'' \<mapsto> ''old'', ''bn.py'' \<mapsto> candidate_14_6])"
  by (simp add: safe_update_def example_env_def pv_14_6 sig_14_6 main_14_6 marker_14_6 gt_14_6
      signature_gate_def compare_digest_def is_ascii_def swap_def write_new_def copy2_def
      shutil_move_def installed_def rename_works_def rename_refused_copy_cut_def)

theorem signature_enforced_witness:
  "SIGNATURE_REQUIRED (example_env candidate_14_6 True ''0f'' rename_works)
   \<and> fetch_raw (example_env candidate_14_6 True ''0f'' rename_works) = Some candidate_14_6
   \<and> extract_signature_line candidate_14_6 \<noteq> Some ''0f''
   \<and> snd (safe_update (example_env candidate_14_6 True ''0f'' rename_works)
        ''14.5'' ''bn.py'' ''bn_prev.py'' installed) = installed
   \<and> fst (safe_update (example_env candidate_14_6 True ''0f'' rename_works)
        ''14.5'' ''bn.py'' ''bn_prev.py'' installed) \<noteq> Updated ''14.6''"
proof -
  let ?e = "example_env candidate_14_6 True ''0f'' rename_works"
  have r: "SIGNATURE_REQUIRED ?e" by (simp add: example_env_def)
  have f: "fetch_raw ?e = Some candidate_14_6" by (simp add: example_env_def)
  have d: "decode ?e candidate_14_6 = candidate_14_6" by (simp add: example_env_def)
  have h: "hmac_hex ?e candidate_14_6 (the (nova_key ?e)) = ''0f''" by (simp add: example_env_def)
  have m: "extract_signature_line candidate_14_6 \<noteq> Some ''0f''" by (simp add: sig_14_6)
  from signature_enforced [OF r f, of "''14.5''" "''bn.py''" "''bn_prev.py''" installed "''14.6''"] m d h
  show ?thesis using r f by simp
qed

text \<open>
  The claim C7 as first stated fails: a candidate that declares version 14.5 but has no
  entry-point marker is turned down as "not a BN file", not reported as up to date.
\<close>

theorem up_to_date_counterexample:
  "parse_version candidate_no_entry = ''14.5'' \<and> \<not> version_gt ''14.5'' ''14.5''
   \<and> fst (safe_update (example_env candidate_no_entry False [] rename_works)
        ''14.5'' ''bn.py'' ''bn_prev.py'' installed) = RejectNotBN"
  by (simp add: pv_no_entry not_gt_14_5 safe_update_def example_env_def no_main_no_entry)

theorem up_to_date_witness:
  "safe_update (example_env candidate_14_5 False [] rename_works)
     ''14.5'' ''bn.py'' ''bn_prev.py'' installed = (UpToDate ''14.5'' ''14.5'', installed)"
proof -
  let ?e = "example_env candidate_14_5 False [] rename_works"
  have f: "fetch_raw ?e = Some candidate_14_5" by (simp add: example_env_def)
  have c: "contains ''def main()'' (decode ?e candidate_14_5)" by (simp add: example_env_def main_14_5)
  have p: "parse_version (decode ?e candidate_14_5) = ''14.5''" by (simp add: example_env_def pv_14_5)
  have n: "''14.5'' \<noteq> ([] :: string)" by simp
  from up_to_date [OF f c p n not_gt_14_5] show ?thesis by simp
qed

text \<open>
  C5. The claim fails on the code at this run: the rename of the temporary file onto the
  installed artifact is refused, \<open>shutil_move\<close> falls back to copying over the
  artifact, and the copy breaks off after 4 bytes. The update reports a swap error, and
  the installed artifact is neither the new candidate nor what it was before.
\<close>

theorem swap_copy_fallback_partial:
  "fst (safe_update (example_env candidate_14_6 False [] rename_refused_copy_cut)
        ''14.5'' ''bn.py'' ''bn_prev.py'' installed) = SwapError
   \<and> snd (safe_update (example_env candidate_14_6 False [] rename_refused_copy_cut)
        ''14.5'' ''bn.py'' ''bn_prev.py'' installed) ''bn.py'' = Some ''# BN''
   \<and> installed ''bn.py'' = Some ''old''"
  by (simp add: safe_update_def example_env_def pv_14_6 main_14_6 marker_14_6 gt_14_6
      signature_gate_def swap_def write_new_def copy2_def shutil_move_def installed_def
      rename_works_def rename_refused_copy_cut_def take_4_candidate)

theorem swap_copy_fallback_partial_witness:
  "fst (safe_update (example_env candidate_14_6 False [] rename_refused_copy_cut)
        ''14.5'' ''bn.py'' ''bn_prev.py'' installed) \<noteq> Updated ''14.6''
   \<and> snd (safe_update (example_env candidate_14_6 False [] rename_refused_copy_cut)
        ''14.5'' ''bn.py'' ''bn_prev.py'' installed) ''bn.py'' \<noteq> installed ''bn.py''
   \<and> snd (safe_update (example_env candidate_14_6 False [] rename_refused_copy_cut)
        ''14.5'' ''bn.py'' ''bn_prev.py'' installed) ''bn.py'' \<noteq> Some candidate_14_6"
  using swap_copy_fallback_partial by (simp add: candidate_14_6_def)

lemma swap_completes:
  assumes "tmp_name e \<noteq> tp" and "tmp_name e \<noteq> bp" and "tp \<noteq> bp"
    and "swap e data tp bp fs = (True, fs')"
  shows "fs' tp = Some data \<and> (\<forall>old. fs tp = Some old \<longrightarrow> fs' bp = Some old)"
  using assms
  by (auto simp: swap_def write_new_def copy2_def shutil_move_def
      split: io_fault.splits if_splits option.splits prod.splits bool.splits)

lemma swap_fails_target_kept:
  assumes "tmp_name e \<noteq> tp" and "tp \<noteq> bp"
    and "rename_ok (move e) \<or> move_copy (move e) = IoFailsBefore"
    and "swap e data tp bp fs = (False, fs')"
  shows "fs' tp = fs tp"
  using assms
  by (auto simp: swap_def write_new_def copy2_def shutil_move_def
      split: io_fault.splits if_splits option.splits prod.splits bool.splits)

lemma swap_backup_fails:
  assumes "tmp_name e \<noteq> tp" and "tp \<noteq> bp" and "fs tp \<noteq> None"
    and "tmp_write e = IoOk" and "backup_copy e \<noteq> IoOk"
  shows "fst (swap e data tp bp fs) = False \<and> snd (swap e data tp bp fs) tp = fs tp"
  using assms
  by (auto simp: swap_def write_new_def copy2_def shutil_move_def
      split: io_fault.splits if_splits option.splits prod.splits bool.splits)


section \<open>Theorems: saving the state document\<close>

lemma written_primary: "tmp \<noteq> p \<Longrightarrow> st \<in> set (written fs tmp s k) \<Longrightarrow> st p = fs p"
  by (auto simp: written_def)

lemma atomic_save_json_step:
  assumes "tmp \<noteq> p"
  shows "(\<forall>st \<in> set (atomic_save_json_steps f tmp s p fs). st p = fs p \<or> st p = Some s)
       \<and> (f \<noteq> SaveOk \<longrightarrow> \<not> fst (atomic_save_json f tmp s p fs)
                          \<and> snd (atomic_save_json f tmp s p fs) p = fs p)
       \<and> (f = SaveOk \<longrightarrow> snd (atomic_save_json f tmp s p fs) p = Some s)"
  using assms
  by (cases f) (auto simp: atomic_save_json_steps_def atomic_save_json_def dest: written_primary)

text \<open>
  C1 (as amended). Every save of the state document through Bn.py's
  \<open>atomic_save_json\<close> writes the serialized document to a temporary file, flushes it,
  then renames it over the primary path. For every sequence of such saves, whatever
  call fails in each, a reader of the primary path sees at every moment either what was
  there before the save then running or that save's whole document, never part of one;
  and a save in which a step fails leaves the primary path as it was.
\<close>

theorem saves_are_atomic:
  "\<forall>x \<in> set xs. fst (snd x) \<noteq> p \<Longrightarrow> saves_atomic p fs xs"
proof (induction xs arbitrary: fs)
  case Nil
  then show ?case by simp
next
  case (Cons x xs)
  obtain f tmp s where x: "x = (f, tmp, s)" by (cases x)
  with Cons.prems have ne: "tmp \<noteq> p" by simp
  from Cons.prems have "\<forall>y \<in> set xs. fst (snd y) \<noteq> p" by simp
  then have "saves_atomic p (snd (atomic_save_json f tmp s p fs)) xs" by (rule Cons.IH)
  with atomic_save_json_step [OF ne, of f s fs] show ?case unfolding x by simp
qed

theorem saves_are_atomic_witness:
  "saves_atomic MEM_PATH [MEM_PATH \<mapsto> ''{old}'']
     [(DumpFailsAfter 2, ''state/.tmp_a'', ''{new}''), (SaveOk, ''state/.tmp_b'', ''{newer}'')]"
proof -
  have "\<forall>x \<in> set [(DumpFailsAfter 2, ''state/.tmp_a'', ''{new}''),
                    (SaveOk, ''state/.tmp_b'', ''{newer}'')]. fst (snd x) \<noteq> MEM_PATH"
    by (simp add: MEM_PATH_def)
  then show ?thesis by (rule saves_are_atomic)
qed

lemma crashed_save_example:
  "snd (atomic_save_json (DumpFailsAfter 2) ''state/.tmp_a'' ''{new}'' MEM_PATH
          [MEM_PATH \<mapsto> ''{old}'']) MEM_PATH = Some ''{old}''
   \<and> snd (atomic_save_json SaveOk ''state/.tmp_b'' ''{newer}'' MEM_PATH
          [MEM_PATH \<mapsto> ''{old}'']) MEM_PATH = Some ''{newer}''"
  by (simp add: atomic_save_json_def atomic_save_json_steps_def MEM_PATH_def)

text \<open>
  The claim C1 as first stated fails for the other save of the repository, bn.py's
  \<open>save_memory\<close>, which opens the state file itself for writing: a reader can find it
  empty, or holding the first two characters of the new document.
\<close>

theorem in_place_save_counterexample:
  "files_core saved_core_state MEM_PATH_core = Some ''{old}''
   \<and> dump_core example_core_env (JObj (dict_set DEFAULT_MEM ''updated_at'' (JStr ''t1''))) = ''{new}''
   \<and> (save_memory_core_steps example_core_env saved_core_state ! 0) MEM_PATH_core = Some []
   \<and> (save_memory_core_steps example_core_env saved_core_state ! 2) MEM_PATH_core = Some ''{n''"
  by (simp add: saved_core_state_def example_core_env_def save_memory_core_steps_def
      py_setitem_def write_in_place_steps_def nth_append)


section \<open>Theorems: the lock file and the death count\<close>

lemma str_int_4711: "str_int 4711 = ''4711''"
  by (simp add: str_int_def digit_char_def str_nat.simps [of 4711] str_nat.simps [of 471]
      str_nat.simps [of 47] str_nat.simps [of 4])

lemma str_int_1: "str_int 1 = ''1''"
  by (simp add: str_int_def digit_char_def str_nat.simps [of "Suc 0"])

lemma str_int_2: "str_int 2 = ''2''"
  by (simp add: str_int_def digit_char_def str_nat.simps [of 2])


lemma read_empty: "read_old_pid [] = None"
  by (simp add: read_old_pid_def strip_def int_simps)

lemma read_separator: "read_old_pid (''7'' @ [CHR 0x1F] @ ''|t0'') = None"
  by (simp add: read_old_pid_def strip_def py_isspace_def int_simps)

lemma read_4242: "read_old_pid (''4242|t0'' @ [CHR 0x0A]) = Some 4242"
  by (simp add: read_old_pid_def strip_def py_isspace_def int_simps)

lemma remove_lock_present:
  "files st LOCK_PATH = Some content \<Longrightarrow> lock_remove_ok e \<Longrightarrow>
   remove_lock e st = Some (st\<lparr>files := (files st)(LOCK_PATH := None)\<rparr>)"
  by (simp add: remove_lock_def)

lemma remove_lock_refused:
  "files st LOCK_PATH = Some content \<Longrightarrow> \<not> lock_remove_ok e \<Longrightarrow> remove_lock e st = None"
  by (simp add: remove_lock_def)




lemma dead_lock_counts_once:
  assumes "files st LOCK_PATH = Some content" and "read_old_pid content = Some p"
    and "\<not> kill_ok e p" and "lock_remove_ok e"
  shows "cleanup_stale_lock e st = Some (True, st\<lparr>files := (files st)(LOCK_PATH := None)\<rparr>)
       \<and> (\<exists>st2. main_startup e st = Some st2
              \<and> files st2 LOCK_PATH = Some (str_int (getpid e) @ ''|'' @ utc_iso e @ [CHR 0x0A])
              \<and> death_count (mem st2) = death_count (mem st) + 1)"
  using assms
  by (simp add: cleanup_stale_lock_def stale_branch_def remove_lock_def main_startup_def
      write_lock_def mark_dirty_def wal_log_def)

lemma live_lock_not_stale:
  assumes "files st LOCK_PATH = Some content" and "read_old_pid content = Some p"
    and "kill_ok e p"
  shows "cleanup_stale_lock e st = Some (False, st)
       \<and> main_startup e st = Some (write_lock e st)
       \<and> death_count (mem (write_lock e st)) = death_count (mem st)
       \<and> files (write_lock e st) LOCK_PATH
           = Some (str_int (getpid e) @ ''|'' @ utc_iso e @ [CHR 0x0A])"
  using assms
  by (simp add: cleanup_stale_lock_def main_startup_def write_lock_def)

text \<open>
  C3. The claim fails on the code at this start: the lock file names process 4242, which
  is alive. \<open>cleanup_stale_lock\<close> sees it (it returns \<open>False\<close> and leaves the lock),
  but \<open>main\<close> has no branch for that answer: it goes on to \<open>write_lock\<close>, which
  replaces the holder's record by that of the new process 4711, and runs.
\<close>

theorem live_lock_overwritten:
  "files held_state LOCK_PATH = Some (''4242|t0'' @ [CHR 0x0A])
   \<and> read_old_pid (''4242|t0'' @ [CHR 0x0A]) = Some 4242
   \<and> kill_ok example_bn_env 4242
   \<and> cleanup_stale_lock example_bn_env held_state = Some (False, held_state)
   \<and> map_option (\<lambda>st. files st LOCK_PATH) (main_startup example_bn_env held_state)
        = Some (Some (''4711|t1'' @ [CHR 0x0A]))"
  using read_4242
  by (simp add: held_state_def example_bn_env_def cleanup_stale_lock_def
      main_startup_def write_lock_def str_int_4711)

text \<open>
  C4. The claim fails on the code at a first start: with no lock file
  \<open>cleanup_stale_lock\<close> returns \<open>True\<close>, the value it also returns after removing a
  stale lock, and \<open>main\<close> takes it for a death: the counter goes from 0 to 1 and
  "death:1" is written to the journal.
\<close>

theorem fresh_start_counts_a_death:
  "files fresh_state LOCK_PATH = None \<and> death_count (mem fresh_state) = 0
   \<and> cleanup_stale_lock example_bn_env fresh_state = Some (True, fresh_state)
   \<and> map_option (\<lambda>st. death_count (mem st)) (main_startup example_bn_env fresh_state) = Some 1
   \<and> map_option (\<lambda>st. files st WAL_PATH) (main_startup example_bn_env fresh_state)
        = Some (Some (''t1 death:1'' @ [CHR 0x0A]))"
  by (simp add: fresh_state_def example_bn_env_def cleanup_stale_lock_def no_deaths_def
      main_startup_def write_lock_def mark_dirty_def wal_log_def append_file_def
      LOCK_PATH_def WAL_PATH_def)

text \<open>
  Two starts of the process around a crash. When the crash comes before the first save,
  the second start loads the default document and counts to 1; when the document was
  saved in between, it counts to 2.
\<close>

lemma py_int_1: "py_int ''1'' = Some 1"
  by (simp add: int_simps)

lemma read_4711: "read_old_pid ''4711|t1\<newline>'' = Some 4711"
  by (simp add: read_old_pid_def strip_def py_isspace_def int_simps)

lemma as_memory_default: "as_memory example_bn_env (default_memory example_bn_env) = Some no_deaths"
  by (simp add: example_bn_env_def default_memory_def death_count_of_def py_getitem_def
      no_deaths_def)

lemma first_boot: "boot example_bn_env Map.empty = Some after_first_boot"
proof -
  have l: "load_or_repair example_bn_env Map.empty = (default_memory example_bn_env, Map.empty)"
    by (simp add: load_or_repair_def)
  show ?thesis
    unfolding boot_def l fst_conv snd_conv as_memory_default
    by (simp add: main_startup_def cleanup_stale_lock_def no_deaths_def after_first_boot_def
      example_bn_env_def write_lock_def mark_dirty_def wal_log_def
      append_file_def str_int_4711 LOCK_PATH_def WAL_PATH_def)
qed

lemma first_autosave:
  "files (autosave_cycle example_bn_env after_first_boot)
   = [WAL_PATH \<mapsto> ''t1 death:1\<newline>'', LOCK_PATH \<mapsto> ''4711|t1\<newline>'', MEM_PATH \<mapsto> ''1'']"
  by (auto simp: after_first_boot_def autosave_cycle_def save_memory_def atomic_save_json_def
      atomic_save_json_steps_def example_bn_env_def str_int_1
      LOCK_PATH_def WAL_PATH_def MEM_PATH_def)

lemma boot_after_crash_before_save:
  "map_option (\<lambda>st. death_count (mem st)) (boot example_bn_env (files after_first_boot)) = Some 1"
proof -
  have l: "load_or_repair example_bn_env (files after_first_boot)
           = (default_memory example_bn_env, files after_first_boot)"
    by (simp add: load_or_repair_def after_first_boot_def LOCK_PATH_def WAL_PATH_def MEM_PATH_def)
  show ?thesis
    unfolding boot_def l fst_conv snd_conv as_memory_default
    using read_4711
    by (simp add: main_startup_def cleanup_stale_lock_def stale_branch_def remove_lock_def
        no_deaths_def after_first_boot_def example_bn_env_def write_lock_def mark_dirty_def
        wal_log_def LOCK_PATH_def WAL_PATH_def)
qed

lemma boot_from_saved_files:
  "map_option (\<lambda>st. death_count (mem st))
     (boot example_bn_env
        [WAL_PATH \<mapsto> ''t1 death:1\<newline>'', LOCK_PATH \<mapsto> ''4711|t1\<newline>'', MEM_PATH \<mapsto> ''1''])
   = Some 2"
proof -
  let ?fs = "[WAL_PATH \<mapsto> ''t1 death:1\<newline>'', LOCK_PATH \<mapsto> ''4711|t1\<newline>'',
              MEM_PATH \<mapsto> ''1'']"
  have l: "load_or_repair example_bn_env ?fs = (JObj [(''death_count'', JInt 1)], ?fs)"
    using py_int_1
    by (simp add: load_or_repair_def json_load_file_def example_bn_env_def)
  have a: "as_memory example_bn_env (JObj [(''death_count'', JInt 1)])
           = Some \<lparr>death_count = 1, learned = [], rest = ()\<rparr>"
    by (simp add: example_bn_env_def death_count_of_def py_getitem_def)
  show ?thesis
    unfolding boot_def l fst_conv snd_conv a
    using read_4711
    by (simp add: main_startup_def cleanup_stale_lock_def stale_branch_def remove_lock_def
        example_bn_env_def write_lock_def mark_dirty_def wal_log_def
        LOCK_PATH_def WAL_PATH_def MEM_PATH_def)
qed

lemma boot_after_save_and_crash:
  "map_option (\<lambda>st. death_count (mem st))
     (boot example_bn_env (files (autosave_cycle example_bn_env after_first_boot))) = Some 2"
  by (simp only: first_autosave boot_from_saved_files)


section \<open>Theorems: loading the state document\<close>

lemma rfind_None_iff: "rfind c t = None \<longleftrightarrow> c \<notin> set t"
  by (induction t) (auto split: option.splits)

lemma rfind_Some_last:
  "rfind c t = Some i \<Longrightarrow>
   i < length t \<and> t ! i = c \<and> (\<forall>j. i < j \<and> j < length t \<longrightarrow> t ! j \<noteq> c)"
proof (induction t arbitrary: i)
  case Nil
  then show ?case by simp
next
  case (Cons x xs)
  show ?case
  proof (cases "rfind c xs")
    case None
    with Cons.prems have i: "i = 0" and x: "x = c" by (auto split: if_splits)
    from None have "c \<notin> set xs" by (simp add: rfind_None_iff)
    then have "\<forall>j. 0 < j \<and> j < length (x # xs) \<longrightarrow> (x # xs) ! j \<noteq> c"
      by (auto simp: nth_Cons split: nat.splits)
    with i x show ?thesis by simp
  next
    case (Some k)
    with Cons.prems have i: "i = Suc k" by simp
    from Cons.IH [OF Some] have k: "k < length xs" "xs ! k = c"
      and l: "\<forall>j. k < j \<and> j < length xs \<longrightarrow> xs ! j \<noteq> c" by auto
    have "\<forall>j. Suc k < j \<and> j < length (x # xs) \<longrightarrow> (x # xs) ! j \<noteq> c"
    proof (intro allI impI)
      fix j assume j: "Suc k < j \<and> j < length (x # xs)"
      then obtain j' where j': "j = Suc j'" by (cases j) auto
      with j l show "(x # xs) ! j \<noteq> c" by simp
    qed
    with i k show ?thesis by simp
  qed
qed

lemma last_index_unique:
  assumes "i < length t" "t ! i = c" "\<forall>j. i < j \<and> j < length t \<longrightarrow> t ! j \<noteq> c"
    and "k < length t" "t ! k = c" "\<forall>j. k < j \<and> j < length t \<longrightarrow> t ! j \<noteq> c"
  shows "i = k"
proof (rule ccontr)
  assume "i \<noteq> k"
  then consider "i < k" | "k < i" by linarith
  then show False using assms by cases auto
qed

lemma rfind_last_index:
  assumes "i < length t" "t ! i = c" "\<forall>j. i < j \<and> j < length t \<longrightarrow> t ! j \<noteq> c"
  shows "rfind c t = Some i"
proof -
  from assms(1,2) have "c \<in> set t" by (metis nth_mem)
  then obtain k where k: "rfind c t = Some k"
    using rfind_None_iff [of c t] by (cases "rfind c t") auto
  from rfind_Some_last [OF k] assms have "i = k"
    using last_index_unique [of i t c k] by blast
  with k show ?thesis by simp
qed

lemma quarantine_path_neq: "quarantine_path e \<noteq> MEM_PATH"
  by (simp add: quarantine_path_def MEM_PATH_def QUAR_DIR_def)

lemma quarantined_files:
  "fs MEM_PATH = Some b \<Longrightarrow>
   snd (os_replace ok fs MEM_PATH (quarantine_path e))
   = (if ok then (fs(MEM_PATH := None))(quarantine_path e \<mapsto> b) else fs)"
  by (simp add: os_replace_def)

text \<open>
  C8 (as amended). For every content of the state file, Bn.py's \<open>load_or_repair\<close>
  returns a value and raises nothing: the default document when there is no file; what
  the parser makes of the file when the file parses (any JSON value, an object or not);
  when it does not, what the parser makes of the leniently read text cut after its last
  closing brace, if that parses; and otherwise the default document, after trying to
  move the unreadable file to
  \<^verbatim>\<open>state/quarantine/memory.json.corrupt.<time>\<close>. When the move goes through, the
  file is there with its content and the primary path is free; when the move fails, the
  failure is swallowed and every file stays as it was, the corrupt one at the primary
  path.
\<close>

theorem load_or_repair_cases:
  "(fs MEM_PATH = None \<longrightarrow> load_or_repair e fs = (default_memory e, fs))
   \<and> (\<forall>b. fs MEM_PATH = Some b \<longrightarrow>
        (\<forall>t d. read_strict e b = Some t \<and> json_loads e t = Some d \<longrightarrow>
            load_or_repair e fs = (d, fs))
      \<and> ((\<forall>t. read_strict e b = Some t \<longrightarrow> json_loads e t = None) \<longrightarrow>
            (\<forall>i d. i < length (read_ignore e b) \<and> read_ignore e b ! i = CHR ''}''
                   \<and> (\<forall>j. i < j \<and> j < length (read_ignore e b) \<longrightarrow> read_ignore e b ! j \<noteq> CHR ''}'')
                   \<and> json_loads e (take (Suc i) (read_ignore e b)) = Some d \<longrightarrow>
               load_or_repair e fs = (d, fs))
          \<and> (CHR ''}'' \<notin> set (read_ignore e b)
              \<or> (\<exists>i. i < length (read_ignore e b) \<and> read_ignore e b ! i = CHR ''}''
                   \<and> (\<forall>j. i < j \<and> j < length (read_ignore e b) \<longrightarrow> read_ignore e b ! j \<noteq> CHR ''}'')
                   \<and> json_loads e (take (Suc i) (read_ignore e b)) = None) \<longrightarrow>
               load_or_repair e fs
               = (default_memory e,
                  if replace_ok e then (fs(MEM_PATH := None))(quarantine_path e \<mapsto> b) else fs))))
   \<and> quarantine_path e = ''state/quarantine/memory.json.corrupt.'' @ strftime e"
proof (intro conjI impI allI)
  assume "fs MEM_PATH = None"
  then show "load_or_repair e fs = (default_memory e, fs)" by (simp add: load_or_repair_def)
next
  fix b t d
  assume "fs MEM_PATH = Some b" and "read_strict e b = Some t \<and> json_loads e t = Some d"
  then show "load_or_repair e fs = (d, fs)"
    by (simp add: load_or_repair_def json_load_file_def)
next
  fix b i d
  let ?t = "read_ignore e b"
  assume b: "fs MEM_PATH = Some b"
    and first: "\<forall>t. read_strict e b = Some t \<longrightarrow> json_loads e t = None"
    and i: "i < length ?t \<and> ?t ! i = CHR ''}''
            \<and> (\<forall>j. i < j \<and> j < length ?t \<longrightarrow> ?t ! j \<noteq> CHR ''}'')
            \<and> json_loads e (take (Suc i) ?t) = Some d"
  from first have f: "json_load_file e b = None"
    by (auto simp: json_load_file_def split: option.splits)
  from i have "rfind CHR ''}'' ?t = Some i" using rfind_last_index by blast
  with i have "repair e b = Some d" by (simp add: repair_def)
  with b f show "load_or_repair e fs = (d, fs)" by (simp add: load_or_repair_def)
next
  fix b
  let ?t = "read_ignore e b"
  assume b: "fs MEM_PATH = Some b"
    and first: "\<forall>t. read_strict e b = Some t \<longrightarrow> json_loads e t = None"
    and second: "CHR ''}'' \<notin> set ?t
              \<or> (\<exists>i. i < length ?t \<and> ?t ! i = CHR ''}''
                   \<and> (\<forall>j. i < j \<and> j < length ?t \<longrightarrow> ?t ! j \<noteq> CHR ''}'')
                   \<and> json_loads e (take (Suc i) ?t) = None)"
  from first have f: "json_load_file e b = None"
    by (auto simp: json_load_file_def split: option.splits)
  from second have r: "repair e b = None"
  proof
    assume "CHR ''}'' \<notin> set ?t"
    then have "rfind CHR ''}'' ?t = None" by (simp add: rfind_None_iff)
    then show ?thesis by (simp add: repair_def)
  next
    assume "\<exists>i. i < length ?t \<and> ?t ! i = CHR ''}''
                   \<and> (\<forall>j. i < j \<and> j < length ?t \<longrightarrow> ?t ! j \<noteq> CHR ''}'')
                   \<and> json_loads e (take (Suc i) ?t) = None"
    then obtain i where i: "i < length ?t" "?t ! i = CHR ''}''"
      "\<forall>j. i < j \<and> j < length ?t \<longrightarrow> ?t ! j \<noteq> CHR ''}''"
      "json_loads e (take (Suc i) ?t) = None" by blast
    then have "rfind CHR ''}'' ?t = Some i" using rfind_last_index by blast
    with i(4) show ?thesis by (simp add: repair_def)
  qed
  from b f r show "load_or_repair e fs
       = (default_memory e,
          if replace_ok e then (fs(MEM_PATH := None))(quarantine_path e \<mapsto> b) else fs)"
    by (simp add: load_or_repair_def quarantined_files)
next
  show "quarantine_path e = ''state/quarantine/memory.json.corrupt.'' @ strftime e"
    by (simp add: quarantine_path_def QUAR_DIR_def)
qed

lemma py_int_cut: "py_int ''{cut'' = None"
  by (simp add: int_simps)

lemma rfind_trailing_garbage: "rfind CHR ''}'' trailing_garbage = Some 30"
  by (simp add: trailing_garbage_def)

lemma take_trailing_garbage:
  \<open>take (Suc 30) trailing_garbage = ''{"facts": {}, "death_count": 7}''\<close>
  by (simp add: trailing_garbage_def)

lemma loads_trailing_garbage: "json_loads example_load_env trailing_garbage = None"
  by (simp add: example_load_env_def example_bn_env_def trailing_garbage_def)

theorem load_or_repair_cases_witness:
  "load_or_repair example_load_env [MEM_PATH \<mapsto> trailing_garbage]
     = (JObj [(''facts'', JObj []), (''death_count'', JInt 7)], [MEM_PATH \<mapsto> trailing_garbage])
   \<and> load_or_repair example_load_env [MEM_PATH \<mapsto> ''{cut'']
     = (default_memory example_load_env,
        [MEM_PATH \<mapsto> ''{cut''](MEM_PATH := None,
           ''state/quarantine/memory.json.corrupt.ts'' \<mapsto> ''{cut''))
   \<and> load_or_repair example_load_env Map.empty = (default_memory example_load_env, Map.empty)"
proof -
  let ?e = example_load_env
  have env: "read_strict ?e = Some" "read_ignore ?e = (\<lambda>b. b)" "replace_ok ?e"
    "strftime ?e = ''ts''"
    by (simp_all add: example_load_env_def example_bn_env_def)
  \<comment> \<open>the repair\<close>
  let ?fs = "[MEM_PATH \<mapsto> trailing_garbage]"
  have b: "?fs MEM_PATH = Some trailing_garbage" by simp
  have first: "\<forall>t. read_strict ?e trailing_garbage = Some t \<longrightarrow> json_loads ?e t = None"
    by (simp add: env loads_trailing_garbage)
  note last = rfind_Some_last [OF rfind_trailing_garbage]
  have cut: "json_loads ?e (take (Suc 30) (read_ignore ?e trailing_garbage))
             = Some (JObj [(''facts'', JObj []), (''death_count'', JInt 7)])"
    by (simp only: env take_trailing_garbage) (simp add: example_load_env_def)
  have rep: "\<forall>i d. i < length (read_ignore ?e trailing_garbage)
                 \<and> read_ignore ?e trailing_garbage ! i = CHR ''}''
                 \<and> (\<forall>j. i < j \<and> j < length (read_ignore ?e trailing_garbage) \<longrightarrow>
                        read_ignore ?e trailing_garbage ! j \<noteq> CHR ''}'')
                 \<and> json_loads ?e (take (Suc i) (read_ignore ?e trailing_garbage)) = Some d \<longrightarrow>
               load_or_repair ?e ?fs = (d, ?fs)"
    using load_or_repair_cases [of ?fs ?e] b first by blast
  have r: "load_or_repair ?e ?fs
           = (JObj [(''facts'', JObj []), (''death_count'', JInt 7)], ?fs)"
    using rep [rule_format, of 30 "JObj [(''facts'', JObj []), (''death_count'', JInt 7)]"]
      last cut by (simp add: env)
  \<comment> \<open>the quarantine\<close>
  let ?gs = "[MEM_PATH \<mapsto> ''{cut'']"
  have c: "?gs MEM_PATH = Some ''{cut''" by simp
  have first': "\<forall>t. read_strict ?e ''{cut'' = Some t \<longrightarrow> json_loads ?e t = None"
    by (simp add: env) (simp add: example_load_env_def)
  have nobrace: "CHR ''}'' \<notin> set (read_ignore ?e ''{cut'')" by (simp add: env)
  have q: "load_or_repair ?e ?gs
           = (default_memory ?e,
              ?gs(MEM_PATH := None, ''state/quarantine/memory.json.corrupt.ts'' \<mapsto> ''{cut''))"
    using load_or_repair_cases [of ?gs ?e] c first' nobrace by (simp add: env)
  \<comment> \<open>no file\<close>
  have n: "load_or_repair ?e Map.empty = (default_memory ?e, Map.empty)"
    using load_or_repair_cases [of Map.empty ?e] by simp
  from r q n show ?thesis by simp
qed

text \<open>
  The claim C8 as first stated fails at three inputs. In bn.py, \<open>load_memory\<close> on a
  state file that does not parse neither repairs nor quarantines: it saves a fresh
  document over the file. In Bn.py, when the move into quarantine fails, the corrupt
  file stays at the primary path, nothing is in quarantine, and the next autosave writes
  the document over it. And a state file that holds the valid JSON text 42 is returned
  as the number 42, which is no document: the start that uses it ends in an exception.
\<close>

theorem load_memory_overwrites_counterexample:
  "files_core corrupt_core_state = [MEM_PATH_core \<mapsto> ''{cut'']
   \<and> loads_core example_core_env ''{cut'' = None
   \<and> files_core (load_memory example_core_env corrupt_core_state) = [MEM_PATH_core \<mapsto> ''{new}'']
   \<and> load_or_repair (example_bn_env\<lparr>replace_ok := False\<rparr>) [MEM_PATH \<mapsto> ''{cut'']
        = (default_memory example_bn_env, [MEM_PATH \<mapsto> ''{cut''])
   \<and> map_option (\<lambda>st. files (autosave_cycle (example_bn_env\<lparr>replace_ok := False\<rparr>) st))
        (boot (example_bn_env\<lparr>replace_ok := False\<rparr>) [MEM_PATH \<mapsto> ''{cut''])
        = Some [MEM_PATH \<mapsto> ''1'', WAL_PATH \<mapsto> ''t1 death:1\<newline>'', LOCK_PATH \<mapsto> ''4711|t1\<newline>'']
   \<and> load_or_repair example_load_env [MEM_PATH \<mapsto> ''42''] = (JInt 42, [MEM_PATH \<mapsto> ''42''])
   \<and> boot example_load_env [MEM_PATH \<mapsto> ''42''] = None"
proof -
  let ?e = "example_bn_env\<lparr>replace_ok := False\<rparr>"
  have core: "files_core corrupt_core_state = [MEM_PATH_core \<mapsto> ''{cut'']
      \<and> loads_core example_core_env ''{cut'' = None
      \<and> files_core (load_memory example_core_env corrupt_core_state) = [MEM_PATH_core \<mapsto> ''{new}'']"
    by (simp add: corrupt_core_state_def example_core_env_def load_memory_def fresh_memory_core_def
        save_memory_core_def py_setitem_def write_new_def)
  have l: "load_or_repair ?e [MEM_PATH \<mapsto> ''{cut'']
           = (default_memory example_bn_env, [MEM_PATH \<mapsto> ''{cut''])"
    using py_int_cut
    by (simp add: load_or_repair_def json_load_file_def repair_def os_replace_def
        example_bn_env_def default_memory_def)
  have a: "as_memory ?e (default_memory example_bn_env) = Some no_deaths"
    using as_memory_default by (simp add: example_bn_env_def)
  have bt: "boot ?e [MEM_PATH \<mapsto> ''{cut'']
            = Some \<lparr>mem = \<lparr>death_count = 1, learned = [], rest = ()\<rparr>, mem_dirty = True,
                files = [MEM_PATH \<mapsto> ''{cut'', WAL_PATH \<mapsto> ''t1 death:1\<newline>'',
                         LOCK_PATH \<mapsto> ''4711|t1\<newline>'']\<rparr>"
    unfolding boot_def l fst_conv snd_conv a
    by (simp add: main_startup_def cleanup_stale_lock_def no_deaths_def
        example_bn_env_def write_lock_def mark_dirty_def wal_log_def
        append_file_def str_int_4711 LOCK_PATH_def WAL_PATH_def MEM_PATH_def)
  have sv: "map_option (\<lambda>st. files (autosave_cycle ?e st)) (boot ?e [MEM_PATH \<mapsto> ''{cut''])
            = Some [MEM_PATH \<mapsto> ''1'', WAL_PATH \<mapsto> ''t1 death:1\<newline>'',
                    LOCK_PATH \<mapsto> ''4711|t1\<newline>'']"
    unfolding bt
    by (auto simp: autosave_cycle_def save_memory_def atomic_save_json_def
        atomic_save_json_steps_def example_bn_env_def str_int_1
        LOCK_PATH_def WAL_PATH_def MEM_PATH_def)
  have n: "load_or_repair example_load_env [MEM_PATH \<mapsto> ''42''] = (JInt 42, [MEM_PATH \<mapsto> ''42''])"
    by (simp add: load_or_repair_def json_load_file_def example_load_env_def example_bn_env_def)
  have nb: "boot example_load_env [MEM_PATH \<mapsto> ''42''] = None"
    unfolding boot_def n fst_conv
    by (simp add: example_load_env_def example_bn_env_def death_count_of_def py_getitem_def)
  from core l sv n nb show ?thesis by simp
qed


section \<open>Theorems: the dirty flag and the autosave\<close>

text \<open>
  C9 (as amended). In Bn.py, \<open>mark_dirty\<close> sets the dirty flag and nothing else, a
  mutation such as \<open>learn\<close> leaves the flag set, and one turn of the autosave task
  saves the document exactly when the flag is set: with the flag clear it writes no
  file at all, with the flag set it runs \<open>save_memory\<close>, which clears the flag once the
  save has returned and leaves it as it was when the save fails. (The lock that guards
  the flag belongs to the threads, which are not modelled.)
\<close>

theorem autosave_only_when_dirty:
  "mark_dirty st = st\<lparr>mem_dirty := True\<rparr>
   \<and> mem_dirty (learn e item st)
   \<and> (\<not> mem_dirty st \<longrightarrow> autosave_cycle_steps e st = [] \<and> autosave_cycle e st = st)
   \<and> (mem_dirty st \<longrightarrow>
        autosave_cycle_steps e st
          = atomic_save_json_steps (save_fault e) (mkstemp e) (json_dump e (mem st)) MEM_PATH (files st)
        \<and> autosave_cycle e st = snd (save_memory e st))
   \<and> (save_fault e = SaveOk \<longrightarrow> \<not> mem_dirty (snd (save_memory e st)))
   \<and> (save_fault e \<noteq> SaveOk \<longrightarrow> mem_dirty (snd (save_memory e st)) = mem_dirty st)"
  by (simp add: mark_dirty_def learn_def wal_log_def autosave_cycle_steps_def autosave_cycle_def
      save_memory_def atomic_save_json_def)

lemma str_int_0: "str_int 0 = ''0''"
  by (simp add: str_int_def digit_char_def str_nat.simps [of 0])

theorem autosave_only_when_dirty_witness:
  "\<not> mem_dirty fresh_state
   \<and> autosave_cycle_steps example_bn_env fresh_state = []
   \<and> autosave_cycle example_bn_env fresh_state = fresh_state
   \<and> mem_dirty (learn example_bn_env ''x'' fresh_state)
   \<and> files (autosave_cycle example_bn_env (learn example_bn_env ''x'' fresh_state)) MEM_PATH = Some ''0''
   \<and> \<not> mem_dirty (autosave_cycle example_bn_env (learn example_bn_env ''x'' fresh_state))"
proof -
  have c: "\<not> mem_dirty fresh_state" by (simp add: fresh_state_def)
  have d: "mem_dirty (learn example_bn_env ''x'' fresh_state)"
    using autosave_only_when_dirty [of fresh_state example_bn_env "''x''"] by simp
  have s: "save_fault example_bn_env = SaveOk" by (simp add: example_bn_env_def)
  have f: "files (snd (save_memory example_bn_env (learn example_bn_env ''x'' fresh_state))) MEM_PATH
            = Some ''0''"
    by (simp add: save_memory_def atomic_save_json_def atomic_save_json_steps_def learn_def
        mark_dirty_def wal_log_def example_bn_env_def fresh_state_def no_deaths_def
        str_int_0 MEM_PATH_def WAL_PATH_def append_file_def)
  from autosave_only_when_dirty [of fresh_state example_bn_env "''x''"]
    autosave_only_when_dirty [of "learn example_bn_env ''x'' fresh_state" example_bn_env "''x''"]
    c d s f
  show ?thesis by simp
qed

text \<open>
  The claim C9 as first stated fails for the other autosave of the repository, bn.py's
  \<open>autosave_loop\<close>, which has no dirty flag: a turn with no mutation since the last
  save empties the state file and writes the document again.
\<close>

theorem autosave_core_counterexample:
  "autosave_cycle_core_steps example_core_env saved_core_state \<noteq> []
   \<and> (autosave_cycle_core_steps example_core_env saved_core_state ! 0) MEM_PATH_core = Some []
   \<and> files_core (autosave_cycle_core example_core_env saved_core_state) MEM_PATH_core = Some ''{new}''
   \<and> files_core saved_core_state MEM_PATH_core = Some ''{old}''"
  by (simp add: autosave_cycle_core_steps_def autosave_cycle_core_def saved_core_state_def
      example_core_env_def save_memory_core_steps_def save_memory_core_def
      py_setitem_def write_in_place_steps_def write_new_def nth_append)


end
